theory Spec2Isabelle
  imports Complex_Main
begin

section \<open>Embedding of \<open>parabolic_equation_stepper.py\<close>\<close>

text \<open>
  The module performs one backward step of a parabolic PDE on a one-dimensional grid.
  Numbers are modelled as HOL reals: the theorems below are about the algebra the code
  writes down, not about floating-point rounding. Every Python exception the module can
  meet is a value of \<open>error\<close>, and every function that can raise returns
  \<open>error + 'a\<close> with \<open>Inl\<close> for the exception.
\<close>

subsection \<open>Errors\<close>

datatype error =
    InvalidBoundaryConditions
      \<comment> \<open>the \<open>ValueError\<close> raised explicitly by \<open>_discretize_boundary_conditions\<close>\<close>
  | NoneNotCallable
      \<comment> \<open>calling a coefficient function that is \<open>None\<close>\<close>
  | NoneValue
      \<comment> \<open>the array library refusing \<open>None\<close> as an operand or as a tensor value\<close>
  | IndexError
      \<comment> \<open>an index out of bounds, or indexing a rank-0 tensor\<close>
  | ShapeError
      \<comment> \<open>shapes that do not broadcast or do not concatenate\<close>

definition ebind :: "error + 'a \<Rightarrow> ('a \<Rightarrow> error + 'b) \<Rightarrow> error + 'b" where
  "ebind m f = (case m of Inl e \<Rightarrow> Inl e | Inr v \<Rightarrow> f v)"

fun sequence :: "(error + 'a) list \<Rightarrow> error + 'a list" where
  "sequence [] = Inr []"
| "sequence (m # ms) = ebind m (\<lambda>v. ebind (sequence ms) (\<lambda>vs. Inr (v # vs)))"

subsection \<open>Tensors of rank at most two\<close>

text \<open>
  The value field has shape \<open>[K, N]\<close> (batch, grid) or \<open>[N]\<close>; boundary data are
  numbers or batch vectors. \<open>T2\<close> holds the rows of the batch. A \<open>T2\<close> with no
  rows carries no column count, so statements about shapes are made for \<open>K > 0\<close>.
\<close>

datatype tensor = T0 real | T1 "real list" | T2 "real list list"

definition tmap :: "(real \<Rightarrow> real) \<Rightarrow> tensor \<Rightarrow> tensor" where
  "tmap f t = (case t of T0 x \<Rightarrow> T0 (f x) | T1 xs \<Rightarrow> T1 (map f xs)
                 | T2 m \<Rightarrow> T2 (map (map f) m))"

definition tneg :: "tensor \<Rightarrow> tensor" where
  "tneg t = tmap uminus t"

definition smul :: "tensor \<Rightarrow> real \<Rightarrow> tensor" where
  \<comment> \<open>\<open>t * s\<close> with \<open>s\<close> a rank-0 tensor: never a shape error\<close>
  "smul t s = tmap (\<lambda>x. x * s) t"

definition zeros_like :: "tensor \<Rightarrow> tensor" where
  "zeros_like t = tmap (\<lambda>_. 0) t"

definition broadcast_zip ::
  "(real \<Rightarrow> real \<Rightarrow> real) \<Rightarrow> real list \<Rightarrow> real list \<Rightarrow> error + real list" where
  \<comment> \<open>an elementwise operation along one axis, an axis of length 1 being stretched\<close>
  "broadcast_zip f xs ys =
     (if length xs = length ys then Inr (map2 f xs ys)
      else if length xs = 1 then Inr (map (f (hd xs)) ys)
      else if length ys = 1 then Inr (map (\<lambda>x. f x (hd ys)) xs)
      else Inl ShapeError)"

definition broadcast_rows ::
  "(real \<Rightarrow> real \<Rightarrow> real) \<Rightarrow> real list list \<Rightarrow> real list list \<Rightarrow> error + real list list" where
  "broadcast_rows f m n =
     (if length m = length n then sequence (map2 (broadcast_zip f) m n)
      else if length m = 1 then sequence (map (broadcast_zip f (hd m)) n)
      else if length n = 1 then sequence (map (\<lambda>r. broadcast_zip f r (hd n)) m)
      else Inl ShapeError)"

fun tbin :: "(real \<Rightarrow> real \<Rightarrow> real) \<Rightarrow> tensor \<Rightarrow> tensor \<Rightarrow> error + tensor" where
  "tbin f (T0 a) (T0 b) = Inr (T0 (f a b))"
| "tbin f (T0 a) (T1 ys) = Inr (T1 (map (f a) ys))"
| "tbin f (T0 a) (T2 n) = Inr (T2 (map (map (f a)) n))"
| "tbin f (T1 xs) (T0 b) = Inr (T1 (map (\<lambda>x. f x b) xs))"
| "tbin f (T1 xs) (T1 ys) = ebind (broadcast_zip f xs ys) (\<lambda>r. Inr (T1 r))"
| "tbin f (T1 xs) (T2 n) = ebind (sequence (map (broadcast_zip f xs) n)) (\<lambda>r. Inr (T2 r))"
| "tbin f (T2 m) (T0 b) = Inr (T2 (map (map (\<lambda>x. f x b)) m))"
| "tbin f (T2 m) (T1 ys) =
     ebind (sequence (map (\<lambda>r. broadcast_zip f r ys) m)) (\<lambda>r. Inr (T2 r))"
| "tbin f (T2 m) (T2 n) = ebind (broadcast_rows f m n) (\<lambda>r. Inr (T2 r))"

definition tdiv_opt :: "tensor \<Rightarrow> tensor option \<Rightarrow> error + tensor" where
  \<comment> \<open>\<open>x / y\<close> where \<open>y\<close> may be \<open>None\<close>\<close>
  "tdiv_opt x y = (case y of None \<Rightarrow> Inl NoneValue | Some d \<Rightarrow> tbin (/) x d)"

definition get :: "'a list \<Rightarrow> int \<Rightarrow> error + 'a" where
  \<comment> \<open>\<open>xs[i]\<close>; a negative index counts from the end\<close>
  "get xs i =
     (if 0 \<le> i \<and> i < int (length xs) then Inr (xs ! nat i)
      else if i < 0 \<and> - int (length xs) \<le> i then Inr (xs ! nat (int (length xs) + i))
      else Inl IndexError)"

definition index_last :: "tensor \<Rightarrow> int \<Rightarrow> error + tensor" where
  \<comment> \<open>\<open>t[..., i]\<close>\<close>
  "index_last t i =
     (case t of
        T0 x \<Rightarrow> Inl IndexError
      | T1 xs \<Rightarrow> ebind (get xs i) (\<lambda>v. Inr (T0 v))
      | T2 m \<Rightarrow> ebind (sequence (map (\<lambda>r. get r i) m)) (\<lambda>vs. Inr (T1 vs)))"

definition slice_last :: "(real list \<Rightarrow> real list) \<Rightarrow> tensor \<Rightarrow> error + tensor" where
  \<comment> \<open>\<open>t[..., lo:hi]\<close>, the slice given as a function on the last axis\<close>
  "slice_last g t =
     (case t of
        T0 x \<Rightarrow> Inl IndexError
      | T1 xs \<Rightarrow> Inr (T1 (g xs))
      | T2 m \<Rightarrow> Inr (T2 (map g m)))"

definition inner_part :: "'a list \<Rightarrow> 'a list" where
  \<comment> \<open>\<open>xs[1:-1]\<close>\<close>
  "inner_part xs = butlast (tl xs)"

definition expand_dims_last :: "tensor \<Rightarrow> error + tensor" where
  \<comment> \<open>\<open>tf.expand_dims(t, -1)\<close>; a rank-3 result cannot be concatenated with a field of
      rank at most two, which is reported here\<close>
  "expand_dims_last t =
     (case t of
        T0 x \<Rightarrow> Inr (T1 [x])
      | T1 xs \<Rightarrow> Inr (T2 (map (\<lambda>x. [x]) xs))
      | T2 m \<Rightarrow> Inl ShapeError)"

fun concat_last :: "tensor \<Rightarrow> tensor \<Rightarrow> error + tensor" where
  "concat_last (T1 xs) (T1 ys) = Inr (T1 (xs @ ys))"
| "concat_last (T2 m) (T2 n) =
     (if length m = length n then Inr (T2 (map2 (@) m n)) else Inl ShapeError)"
| "concat_last _ _ = Inl ShapeError"

definition row_to :: "nat \<Rightarrow> real list \<Rightarrow> error + real list" where
  "row_to n xs =
     (if length xs = n then Inr xs
      else if length xs = 1 then Inr (replicate n (hd xs))
      else Inl ShapeError)"

definition broadcast_to :: "tensor \<Rightarrow> tensor \<Rightarrow> error + tensor" where
  \<comment> \<open>\<open>tf.broadcast_to(c, tf.shape(v))\<close>\<close>
  "broadcast_to c v =
     (case v of
        T0 y \<Rightarrow> (case c of T0 x \<Rightarrow> Inr (T0 x) | _ \<Rightarrow> Inl ShapeError)
      | T1 ys \<Rightarrow>
          (case c of
             T0 x \<Rightarrow> Inr (T1 (replicate (length ys) x))
           | T1 xs \<Rightarrow> ebind (row_to (length ys) xs) (\<lambda>r. Inr (T1 r))
           | T2 m \<Rightarrow> Inl ShapeError)
      | T2 rows \<Rightarrow>
          (let k = length rows; n = (case rows of [] \<Rightarrow> 0 | r # _ \<Rightarrow> length r) in
           case c of
             T0 x \<Rightarrow> Inr (T2 (replicate k (replicate n x)))
           | T1 xs \<Rightarrow> ebind (row_to n xs) (\<lambda>r. Inr (T2 (replicate k r)))
           | T2 m \<Rightarrow>
               if length m = k then ebind (sequence (map (row_to n) m)) (\<lambda>r. Inr (T2 r))
               else if length m = 1
               then ebind (row_to n (hd m)) (\<lambda>r. Inr (T2 (replicate k r)))
               else Inl ShapeError))"

subsection \<open>Callables\<close>

text \<open>
  A coefficient callable receives the time and the list of coordinate grids and returns
  the coefficient (the entry \<open>A[0][0]\<close>, \<open>b[0]\<close> or \<open>c\<close> that the code reads), which may
  be \<open>None\<close>. A boundary callable returns \<open>(alpha, beta, gamma)\<close>, where \<open>alpha\<close> and
  \<open>beta\<close> may be \<open>None\<close>. Its second argument is whatever the caller passes: the list
  of coordinate grids, or a single coordinate.
\<close>

type_synonym coeff_fn = "real \<Rightarrow> real list list \<Rightarrow> tensor option"

datatype grid_arg = CoordGrid "real list list" | CoordPoint real

type_synonym boundary_fn = "real \<Rightarrow> grid_arg \<Rightarrow> tensor option \<times> tensor option \<times> tensor"

type_synonym tridiag = "tensor \<times> tensor \<times> tensor"

type_synonym marching_scheme =
  "tensor \<Rightarrow> real \<Rightarrow> real \<Rightarrow> (real \<Rightarrow> error + (tridiag \<times> tensor)) \<Rightarrow> error + tensor"

subsection \<open>The helper functions\<close>

definition append_first_and_last :: "tensor \<Rightarrow> tensor \<Rightarrow> tensor \<Rightarrow> error + tensor" where
  "append_first_and_last first inner lst =
     ebind (expand_dims_last first) (\<lambda>f.
     ebind (expand_dims_last lst) (\<lambda>l.
     ebind (concat_last f inner) (\<lambda>fi.
     concat_last fi l)))"

definition append_first :: "tensor \<Rightarrow> tensor \<Rightarrow> error + tensor" where
  "append_first first rest = ebind (expand_dims_last first) (\<lambda>f. concat_last f rest)"

definition append_last :: "tensor \<Rightarrow> tensor \<Rightarrow> error + tensor" where
  "append_last rest lst = ebind (expand_dims_last lst) (\<lambda>l. concat_last rest l)"

definition prepare_pde_coeffs :: "tensor option \<Rightarrow> tensor \<Rightarrow> error + tensor" where
  "prepare_pde_coeffs raw_coeffs value_grid =
     (case raw_coeffs of
        None \<Rightarrow> Inl NoneValue
      | Some coeffs \<Rightarrow>
          ebind (broadcast_to coeffs value_grid) (\<lambda>full.
          slice_last inner_part full))"

definition discretize_boundary_conditions ::
  "real \<Rightarrow> real \<Rightarrow> tensor option \<Rightarrow> tensor option \<Rightarrow> tensor
     \<Rightarrow> error + (tensor \<times> tensor \<times> tensor)" where
  "discretize_boundary_conditions dx0 dx1 alpha beta gamma =
     (case beta of
        None \<Rightarrow>
          (case alpha of
             None \<Rightarrow> Inl InvalidBoundaryConditions
           | Some a \<Rightarrow>
               (let zeros = zeros_like gamma in
                ebind (tbin (/) gamma a) (\<lambda>eta. Inr (zeros, zeros, eta))))
      | Some b \<Rightarrow>
          ebind (case alpha of
                   None \<Rightarrow> Inr (smul (smul b dx1) (2 * dx0 + dx1))
                 | Some a \<Rightarrow>
                     tbin (+) (smul (smul b dx1) (2 * dx0 + dx1))
                              (smul (smul (smul a dx0) dx1) (dx0 + dx1))) (\<lambda>denom.
          ebind (tbin (/) (smul (smul b (dx0 + dx1)) (dx0 + dx1)) denom) (\<lambda>xi1.
          ebind (tbin (/) (smul (smul (tneg b) dx0) dx0) denom) (\<lambda>xi2.
          ebind (tbin (/) (smul (smul (smul gamma dx0) dx1) (dx0 + dx1)) denom) (\<lambda>eta.
          Inr (xi1, xi2, eta))))))"

definition apply_boundary_conditions_to_discretized_equation ::
  "boundary_fn \<times> boundary_fn \<Rightarrow> real list list \<Rightarrow> real list
     \<Rightarrow> tensor \<Rightarrow> tensor \<Rightarrow> tensor \<Rightarrow> real \<Rightarrow> error + (tridiag \<times> tensor)" where
  "apply_boundary_conditions_to_discretized_equation boundary_conditions coord_grid
       coord_grid_deltas diagonal upper_diagonal lower_diagonal t =
     (case fst boundary_conditions t (CoordGrid coord_grid) of (alpha_l, beta_l, gamma_l) \<Rightarrow>
      case snd boundary_conditions t (CoordGrid coord_grid) of (alpha_u, beta_u, gamma_u) \<Rightarrow>
      if beta_l = None \<and> beta_u = None then
        ebind (index_last lower_diagonal 0) (\<lambda>l0.
        ebind (tbin (*) l0 gamma_l) (\<lambda>lg.
        ebind (tdiv_opt lg alpha_l) (\<lambda>first_inhomog_element.
        ebind (index_last upper_diagonal (- 1)) (\<lambda>u1.
        ebind (tbin (*) u1 gamma_u) (\<lambda>ug.
        ebind (tdiv_opt ug alpha_u) (\<lambda>last_inhomog_element.
        ebind (slice_last inner_part diagonal) (\<lambda>mid.
        ebind (append_first_and_last first_inhomog_element (zeros_like mid)
                 last_inhomog_element) (\<lambda>inhomog_term.
        Inr ((diagonal, upper_diagonal, lower_diagonal), inhomog_term)))))))))
      else
        ebind (get coord_grid_deltas 0) (\<lambda>dl0.
        ebind (get coord_grid_deltas 1) (\<lambda>dl1.
        ebind (discretize_boundary_conditions dl0 dl1 alpha_l beta_l gamma_l)
          (\<lambda>(xi1, xi2, eta).
        ebind (index_last lower_diagonal 0) (\<lambda>l0.
        ebind (tbin (*) l0 xi1) (\<lambda>diag_first_correction.
        ebind (tbin (*) l0 xi2) (\<lambda>upper_diag_correction.
        ebind (tbin (*) l0 eta) (\<lambda>first_inhomog_element.
        ebind (get coord_grid_deltas (- 1)) (\<lambda>du0.
        ebind (get coord_grid_deltas (- 2)) (\<lambda>du1.
        ebind (discretize_boundary_conditions du0 du1 alpha_u beta_u gamma_u)
          (\<lambda>(xj1, xj2, etb).
        ebind (index_last upper_diagonal (- 1)) (\<lambda>u1.
        ebind (tbin (*) u1 xj1) (\<lambda>diag_last_correction.
        ebind (tbin (*) u1 xj2) (\<lambda>lower_diag_correction.
        ebind (tbin (*) u1 etb) (\<lambda>last_inhomog_element.
        ebind (index_last diagonal 0) (\<lambda>d0.
        ebind (tbin (+) d0 diag_first_correction) (\<lambda>d0'.
        ebind (slice_last inner_part diagonal) (\<lambda>dmid.
        ebind (index_last diagonal (- 1)) (\<lambda>d1.
        ebind (tbin (+) d1 diag_last_correction) (\<lambda>d1'.
        ebind (append_first_and_last d0' dmid d1') (\<lambda>diagonal'.
        ebind (index_last upper_diagonal 0) (\<lambda>u0.
        ebind (tbin (+) u0 upper_diag_correction) (\<lambda>u0'.
        ebind (slice_last tl upper_diagonal) (\<lambda>urest.
        ebind (append_first u0' urest) (\<lambda>upper_diagonal'.
        ebind (slice_last butlast lower_diagonal) (\<lambda>lrest.
        ebind (index_last lower_diagonal (- 1)) (\<lambda>l1.
        ebind (tbin (+) l1 lower_diag_correction) (\<lambda>l1'.
        ebind (append_last lrest l1') (\<lambda>lower_diagonal'.
        ebind (slice_last inner_part diagonal') (\<lambda>mid.
        ebind (append_first_and_last first_inhomog_element (zeros_like mid)
                 last_inhomog_element) (\<lambda>inhomog_term.
        Inr ((diagonal', upper_diagonal', lower_diagonal'), inhomog_term)
        )))))))))))))))))))))))))))))))"

definition apply_boundary_conditions_after_step ::
  "tensor \<Rightarrow> boundary_fn \<times> boundary_fn \<Rightarrow> real list list \<Rightarrow> real list \<Rightarrow> real
     \<Rightarrow> error + tensor" where
  "apply_boundary_conditions_after_step inner_grid_out boundary_conditions coord_grid
       coord_grid_deltas time_after_step =
     ebind (get coord_grid 0) (\<lambda>g0.
     ebind (get g0 0) (\<lambda>x0.
     case fst boundary_conditions time_after_step (CoordPoint x0) of (alpha, beta, gamma) \<Rightarrow>
     ebind (get coord_grid_deltas 0) (\<lambda>dl0.
     ebind (get coord_grid_deltas 1) (\<lambda>dl1.
     ebind (discretize_boundary_conditions dl0 dl1 alpha beta gamma) (\<lambda>(xi1, xi2, eta).
     ebind (index_last inner_grid_out 0) (\<lambda>v0.
     ebind (tbin (*) xi1 v0) (\<lambda>p0.
     ebind (index_last inner_grid_out 1) (\<lambda>v1.
     ebind (tbin (*) xi2 v1) (\<lambda>p1.
     ebind (tbin (+) p0 p1) (\<lambda>s.
     ebind (tbin (+) s eta) (\<lambda>first_value.
     case snd boundary_conditions time_after_step (CoordGrid coord_grid)
       of (alpha_u, beta_u, gamma_u) \<Rightarrow>
     ebind (get coord_grid_deltas (- 1)) (\<lambda>du0.
     ebind (get coord_grid_deltas (- 2)) (\<lambda>du1.
     ebind (discretize_boundary_conditions du0 du1 alpha_u beta_u gamma_u)
       (\<lambda>(xj1, xj2, etb).
     ebind (index_last inner_grid_out (- 1)) (\<lambda>w0.
     ebind (tbin (*) xj1 w0) (\<lambda>q0.
     ebind (index_last inner_grid_out (- 2)) (\<lambda>w1.
     ebind (tbin (*) xj2 w1) (\<lambda>q1.
     ebind (tbin (+) q0 q1) (\<lambda>s'.
     ebind (tbin (+) s' etb) (\<lambda>last_value.
     append_first_and_last first_value inner_grid_out last_value
     ))))))))))))))))))))"

definition space_discretized_stencil ::
  "real list list \<Rightarrow> real list \<Rightarrow> tensor \<Rightarrow> coeff_fn option \<Rightarrow> coeff_fn \<Rightarrow> coeff_fn \<Rightarrow> real
     \<Rightarrow> error + tridiag" where
  \<comment> \<open>the body of \<open>_construct_space_discretized_eqn_params\<close> up to the three diagonals\<close>
  "space_discretized_stencil coord_grid coord_grid_deltas value_grid
       second_order_coeff_fn first_order_coeff_fn zeroth_order_coeff_fn t =
     (let forward_deltas = tl coord_grid_deltas;
          backward_deltas = butlast coord_grid_deltas;
          sum_deltas = map2 (+) forward_deltas backward_deltas in
      ebind (case second_order_coeff_fn of
               None \<Rightarrow> Inl NoneNotCallable
             | Some fn \<Rightarrow> prepare_pde_coeffs (fn t coord_grid) value_grid)
        (\<lambda>second_order_coeff.
      ebind (prepare_pde_coeffs (first_order_coeff_fn t coord_grid) value_grid)
        (\<lambda>first_order_coeff.
      ebind (prepare_pde_coeffs (zeroth_order_coeff_fn t coord_grid) value_grid)
        (\<lambda>zeroth_order_coeff.
      ebind (tbin (/) (tmap (\<lambda>x. 2 * x) second_order_coeff) (T1 sum_deltas)) (\<lambda>temp.
      ebind (tbin (/) temp (T1 forward_deltas)) (\<lambda>dxdx_coef_1.
      ebind (tbin (/) temp (T1 backward_deltas)) (\<lambda>dxdx_coef_2.
      ebind (tbin (/) first_order_coeff (T1 sum_deltas)) (\<lambda>dx_coef.
      ebind (tbin (-) (tneg dx_coef) dxdx_coef_1) (\<lambda>upper_diagonal.
      ebind (tbin (-) dx_coef dxdx_coef_2) (\<lambda>lower_diagonal.
      ebind (tbin (-) (tneg zeroth_order_coeff) upper_diagonal) (\<lambda>d.
      ebind (tbin (-) d lower_diagonal) (\<lambda>diagonal.
      Inr (diagonal, upper_diagonal, lower_diagonal)))))))))))))"

definition construct_space_discretized_eqn_params ::
  "real list list \<Rightarrow> real list \<Rightarrow> tensor \<Rightarrow> boundary_fn \<times> boundary_fn
     \<Rightarrow> coeff_fn option \<Rightarrow> coeff_fn \<Rightarrow> coeff_fn \<Rightarrow> real \<Rightarrow> error + (tridiag \<times> tensor)" where
  "construct_space_discretized_eqn_params coord_grid coord_grid_deltas value_grid
       boundary_conditions second_order_coeff_fn first_order_coeff_fn
       zeroth_order_coeff_fn t =
     ebind (space_discretized_stencil coord_grid coord_grid_deltas value_grid
              second_order_coeff_fn first_order_coeff_fn zeroth_order_coeff_fn t)
       (\<lambda>(diagonal, upper_diagonal, lower_diagonal).
     apply_boundary_conditions_to_discretized_equation boundary_conditions coord_grid
       coord_grid_deltas diagonal upper_diagonal lower_diagonal t)"

definition grid_deltas :: "real list \<Rightarrow> real list" where
  \<comment> \<open>\<open>coord_grid[0][1:] - coord_grid[0][:-1]\<close>; both slices have the same length\<close>
  "grid_deltas g = map2 (-) (tl g) (butlast g)"

definition zero_coeff_fn :: coeff_fn where
  \<comment> \<open>\<open>lambda *args: [0.0]\<close> and \<open>lambda *args: 0.0\<close>: the coefficient read is \<open>0.0\<close>\<close>
  "zero_coeff_fn = (\<lambda>_ _. Some (T0 0))"

definition or_else :: "'a option \<Rightarrow> 'a \<Rightarrow> 'a" where
  \<comment> \<open>\<open>fn or dflt\<close> for a callable \<open>fn\<close> that may be \<open>None\<close>\<close>
  "or_else fn dflt = (case fn of None \<Rightarrow> dflt | Some f \<Rightarrow> f)"

definition equation_params_fn ::
  "real list list \<Rightarrow> real list \<Rightarrow> tensor \<Rightarrow> boundary_fn \<times> boundary_fn
     \<Rightarrow> coeff_fn option \<Rightarrow> coeff_fn \<Rightarrow> coeff_fn \<Rightarrow> real \<Rightarrow> error + (tridiag \<times> tensor)" where
  \<comment> \<open>the closure \<open>equation_params_fn\<close> that \<open>parabolic_equation_step\<close> hands to the
      time-marching routine\<close>
  "equation_params_fn coord_grid coord_grid_deltas value_grid boundary_conditions
       second_order_coeff_fn first_order_coeff_fn zeroth_order_coeff_fn =
     (\<lambda>t. construct_space_discretized_eqn_params coord_grid coord_grid_deltas value_grid
            boundary_conditions second_order_coeff_fn first_order_coeff_fn
            zeroth_order_coeff_fn t)"

definition parabolic_equation_step ::
  "real \<Rightarrow> real \<Rightarrow> real list list \<Rightarrow> tensor \<Rightarrow> boundary_fn \<times> boundary_fn
     \<Rightarrow> coeff_fn option \<Rightarrow> coeff_fn option \<Rightarrow> coeff_fn option \<Rightarrow> marching_scheme
     \<Rightarrow> error + (real list list \<times> tensor)" where
  "parabolic_equation_step time next_time coord_grid value_grid boundary_conditions
       second_order_coeff_fn first_order_coeff_fn zeroth_order_coeff_fn
       time_marching_scheme =
     (let first_order_coeff_fn' = or_else first_order_coeff_fn zero_coeff_fn;
          zeroth_order_coeff_fn' = or_else zeroth_order_coeff_fn zero_coeff_fn in
      ebind (slice_last inner_part value_grid) (\<lambda>inner_grid_in.
      ebind (get coord_grid 0) (\<lambda>g0.
      let coord_grid_deltas = grid_deltas g0 in
      ebind (time_marching_scheme inner_grid_in next_time time
               (equation_params_fn coord_grid coord_grid_deltas value_grid
                  boundary_conditions second_order_coeff_fn first_order_coeff_fn'
                  zeroth_order_coeff_fn')) (\<lambda>inner_grid_out.
      ebind (apply_boundary_conditions_after_step inner_grid_out boundary_conditions
               coord_grid coord_grid_deltas next_time) (\<lambda>updated_value_grid.
      Inr (coord_grid, updated_value_grid))))))"

text \<open>
  The formula of the specification for a Robin condition, on numbers: the rule
  \<open>(xi1, xi2, eta)\<close> for spacings \<open>dx0\<close>, \<open>dx1\<close> and the condition
  \<open>alpha * V + beta * V_n = gamma\<close>, where \<open>alpha\<close> may be absent. The code is compared
  with it below.
\<close>

definition robin_rule :: "real \<Rightarrow> real \<Rightarrow> real option \<Rightarrow> real \<Rightarrow> real \<Rightarrow> real \<times> real \<times> real" where
  "robin_rule dx0 dx1 alpha beta gamma =
     (let denom = beta * dx1 * (2 * dx0 + dx1)
                  + (case alpha of None \<Rightarrow> 0 | Some a \<Rightarrow> a * dx0 * dx1 * (dx0 + dx1))
      in (beta * (dx0 + dx1)\<^sup>2 / denom, - beta * dx0\<^sup>2 / denom,
          gamma * dx0 * dx1 * (dx0 + dx1) / denom))"

subsection \<open>Shapes, batch values and test data\<close>

text \<open>
  \<open>is_matrix K n m\<close>: the rows \<open>m\<close> form a tensor of shape \<open>[K, n]\<close>.
  \<open>batch_ok K t\<close>: \<open>t\<close> is a number or a batch vector of length \<open>K\<close>, the two
  shapes a boundary callable returns; \<open>batch_at t k\<close> is its value for batch entry
  \<open>k\<close>. \<open>vec_of\<close> and \<open>mat_of\<close> build a vector and a matrix from their entries.
\<close>

definition is_matrix :: "nat \<Rightarrow> nat \<Rightarrow> real list list \<Rightarrow> bool" where
  "is_matrix K n m \<longleftrightarrow> length m = K \<and> list_all (\<lambda>r. length r = n) m"

definition vec_of :: "nat \<Rightarrow> (nat \<Rightarrow> real) \<Rightarrow> real list" where
  "vec_of n v = map v [0..<n]"

definition mat_of :: "nat \<Rightarrow> nat \<Rightarrow> (nat \<Rightarrow> nat \<Rightarrow> real) \<Rightarrow> real list list" where
  "mat_of K n a = map (\<lambda>k. vec_of n (a k)) [0..<K]"

definition batch_ok :: "nat \<Rightarrow> tensor \<Rightarrow> bool" where
  "batch_ok K t = (case t of T0 x \<Rightarrow> True | T1 xs \<Rightarrow> length xs = K | T2 m \<Rightarrow> False)"

definition batch_at :: "tensor \<Rightarrow> nat \<Rightarrow> real" where
  "batch_at t k = (case t of T0 x \<Rightarrow> x | T1 xs \<Rightarrow> xs ! k | T2 m \<Rightarrow> 0)"

definition valid_boundary :: "nat \<Rightarrow> tensor option \<times> tensor option \<times> tensor \<Rightarrow> bool" where
  \<comment> \<open>a boundary triple for a batch of \<open>K\<close>: not both of \<open>alpha\<close>, \<open>beta\<close> absent\<close>
  "valid_boundary K abg =
     (case abg of (alpha, beta, gamma) \<Rightarrow>
        (alpha \<noteq> None \<or> beta \<noteq> None)
        \<and> (case alpha of None \<Rightarrow> True | Some a \<Rightarrow> batch_ok K a)
        \<and> (case beta of None \<Rightarrow> True | Some b \<Rightarrow> batch_ok K b)
        \<and> batch_ok K gamma)"

text \<open>
  Two time-marching routines for the examples: one returns the interior field unchanged
  without looking at the equation, the other first asks for the equation at \<open>t1\<close>,
  as every real scheme does, and lets its exception through.
\<close>

definition identity_scheme :: marching_scheme where
  "identity_scheme inner t1 t2 params_fn = Inr inner"

definition probing_scheme :: marching_scheme where
  "probing_scheme inner t1 t2 params_fn = ebind (params_fn t1) (\<lambda>_. Inr inner)"

definition dirichlet :: "real \<Rightarrow> boundary_fn" where
  "dirichlet g = (\<lambda>t x. (Some (T0 1), None, T0 g))"

definition argument_probe :: boundary_fn where
  \<comment> \<open>a Dirichlet condition whose value tells which kind of argument it was given\<close>
  "argument_probe =
     (\<lambda>t x. (Some (T0 1), None, T0 (case x of CoordGrid _ \<Rightarrow> 1 | CoordPoint _ \<Rightarrow> 0)))"

section \<open>Basic facts\<close>

lemmas tensor_defs = tmap_def tneg_def smul_def zeros_like_def broadcast_zip_def
  broadcast_rows_def tdiv_opt_def get_def index_last_def slice_last_def inner_part_def
  expand_dims_last_def row_to_def broadcast_to_def append_first_and_last_def
  append_first_def append_last_def prepare_pde_coeffs_def grid_deltas_def Let_def
  zero_coeff_fn_def or_else_def equation_params_fn_def

declare tbin.simps [simp del] concat_last.simps [simp del]

lemma ebind_simps [simp]: "ebind (Inr v) f = f v" "ebind (Inl e) f = Inl e"
  by (simp_all add: ebind_def)

lemma sequence_map_Inr:
  "(\<And>x. x \<in> set xs \<Longrightarrow> f x = Inr (g x)) \<Longrightarrow> sequence (map f xs) = Inr (map g xs)"
  by (induction xs) simp_all

lemma length_vec_of [simp]: "length (vec_of n v) = n"
  by (simp add: vec_of_def)

lemma nth_vec_of [simp]: "i < n \<Longrightarrow> vec_of n v ! i = v i"
  by (simp add: vec_of_def)

lemma length_mat_of [simp]: "length (mat_of K n a) = K"
  by (simp add: mat_of_def)

lemma nth_mat_of [simp]: "k < K \<Longrightarrow> mat_of K n a ! k = vec_of n (a k)"
  by (simp add: mat_of_def)

lemma vec_of_nth: "length xs = n \<Longrightarrow> vec_of n (\<lambda>i. xs ! i) = xs"
  by (auto simp: vec_of_def intro: nth_equalityI)

lemma vec_of_cong: "(\<And>i. i < n \<Longrightarrow> v i = w i) \<Longrightarrow> vec_of n v = vec_of n w"
  by (simp add: vec_of_def)

lemma mat_of_cong: "(\<And>k i. k < K \<Longrightarrow> i < n \<Longrightarrow> a k i = b k i) \<Longrightarrow> mat_of K n a = mat_of K n b"
  by (simp add: mat_of_def vec_of_def)

lemma mat_of_nth: "is_matrix K n m \<Longrightarrow> mat_of K n (\<lambda>k i. m ! k ! i) = m"
  by (auto simp: is_matrix_def mat_of_def list_all_length vec_of_nth intro!: nth_equalityI)

lemma is_matrix_mat_of [simp]: "is_matrix K n (mat_of K n a)"
  by (simp add: is_matrix_def mat_of_def list_all_iff)

lemma broadcast_zip_vec [simp]:
  "broadcast_zip f (vec_of n a) (vec_of n b) = Inr (vec_of n (\<lambda>i. f (a i) (b i)))"
  by (auto simp: broadcast_zip_def vec_of_def intro!: nth_equalityI)

lemma tbin_T2_T2 [simp]:
  "tbin f (T2 (mat_of K n a)) (T2 (mat_of K n b)) = Inr (T2 (mat_of K n (\<lambda>k i. f (a k i) (b k i))))"
proof -
  have "map2 (broadcast_zip f) (mat_of K n a) (mat_of K n b)
        = map (\<lambda>k. broadcast_zip f (vec_of n (a k)) (vec_of n (b k))) [0..<K]"
    by (auto simp: mat_of_def intro!: nth_equalityI)
  then have "sequence (map2 (broadcast_zip f) (mat_of K n a) (mat_of K n b))
        = Inr (map (\<lambda>k. vec_of n (\<lambda>i. f (a k i) (b k i))) [0..<K])"
    by (simp add: sequence_map_Inr)
  then show ?thesis
    by (simp add: tbin.simps broadcast_rows_def mat_of_def)
qed

lemma tbin_T2_T1 [simp]:
  "tbin f (T2 (mat_of K n a)) (T1 (vec_of n v)) = Inr (T2 (mat_of K n (\<lambda>k i. f (a k i) (v i))))"
proof -
  have "sequence (map (\<lambda>r. broadcast_zip f r (vec_of n v)) (mat_of K n a))
        = Inr (map (\<lambda>k. vec_of n (\<lambda>i. f (a k i) (v i))) [0..<K])"
    unfolding mat_of_def map_map by (rule sequence_map_Inr) simp
  then show ?thesis
    by (simp add: tbin.simps mat_of_def)
qed

lemma tmap_T2 [simp]: "tmap f (T2 (mat_of K n a)) = T2 (mat_of K n (\<lambda>k i. f (a k i)))"
  by (simp add: tmap_def mat_of_def vec_of_def)

lemma tmap_T1 [simp]: "tmap f (T1 (vec_of n a)) = T1 (vec_of n (\<lambda>i. f (a i)))"
  by (simp add: tmap_def vec_of_def)

lemma inner_part_vec_of [simp]: "inner_part (vec_of n a) = vec_of (n - 2) (\<lambda>i. a (Suc i))"
  by (auto simp: inner_part_def vec_of_def nth_butlast nth_tl intro!: nth_equalityI)

lemma tl_vec_of [simp]: "tl (vec_of n a) = vec_of (n - 1) (\<lambda>i. a (Suc i))"
  by (auto simp: vec_of_def nth_tl intro!: nth_equalityI)

lemma butlast_vec_of [simp]: "butlast (vec_of n a) = vec_of (n - 1) a"
  by (auto simp: vec_of_def nth_butlast intro!: nth_equalityI)

lemma slice_last_T2 [simp]:
  "slice_last inner_part (T2 (mat_of K n a)) = Inr (T2 (mat_of K (n - 2) (\<lambda>k i. a k (Suc i))))"
  by (simp add: slice_last_def mat_of_def)

lemma map2_vec_of [simp]: "map2 f (vec_of n a) (vec_of n b) = vec_of n (\<lambda>i. f (a i) (b i))"
  by (auto simp: vec_of_def intro!: nth_equalityI)

lemma sequence_map_eq_Inr:
  "sequence (map f xs) = Inr vs \<Longrightarrow> list_all2 (\<lambda>x v. f x = Inr v) xs vs"
  by (induction xs arbitrary: vs) (auto simp: ebind_def split: sum.splits)

lemma row_to_length: "row_to n xs = Inr r \<Longrightarrow> length r = n"
  by (auto simp: row_to_def split: if_splits)

lemma sequence_row_to:
  assumes "sequence (map (row_to n) m) = Inr rs"
  shows "length rs = length m \<and> (\<forall>r\<in>set rs. length r = n)"
proof -
  have "list_all2 (\<lambda>x v. row_to n x = Inr v) m rs"
    using assms by (rule sequence_map_eq_Inr)
  then show ?thesis
    using row_to_length by (fastforce simp: list_all2_conv_all_nth in_set_conv_nth)
qed

lemma broadcast_to_matrix:
  assumes "broadcast_to c (T2 vg) = Inr r" "is_matrix K n vg"
  shows "\<exists>A. r = T2 A \<and> is_matrix K n A"
proof -
  have n: "(case vg of [] \<Rightarrow> 0 | r # _ \<Rightarrow> length r) = n" if "vg \<noteq> []"
    using that assms(2) by (cases vg) (auto simp: is_matrix_def)
  have K: "length vg = K"
    using assms(2) by (simp add: is_matrix_def)
  show ?thesis
  proof (cases "vg = []")
    case True
    then show ?thesis
      using assms
      by (cases c)
         (auto simp: broadcast_to_def is_matrix_def ebind_def row_to_def
               split: sum.splits if_splits)
  next
    case False
    note nn = n[OF False]
    show ?thesis
    proof (cases c)
      case (T0 x)
      then show ?thesis
        using assms nn K by (auto simp: broadcast_to_def is_matrix_def list_all_iff)
    next
      case (T1 xs)
      then show ?thesis
        using assms nn K
        by (auto simp: broadcast_to_def is_matrix_def list_all_iff ebind_def
                 dest: row_to_length split: sum.splits)
    next
      case (T2 m)
      then show ?thesis
        using assms nn K
        by (auto simp: broadcast_to_def is_matrix_def list_all_iff ebind_def
                 dest: row_to_length sequence_row_to split: sum.splits if_splits)
    qed
  qed
qed

lemma nth_grid_deltas: "i < length g - 1 \<Longrightarrow> grid_deltas g ! i = g ! Suc i - g ! i"
  by (simp add: grid_deltas_def nth_tl nth_butlast)

lemma length_grid_deltas [simp]: "length (grid_deltas g) = length g - 1"
  by (simp add: grid_deltas_def)

lemma prepare_pde_coeffs_matrix:
  assumes "broadcast_to a (T2 vg) = Inr (T2 A)" "is_matrix K N vg"
  shows "prepare_pde_coeffs (Some a) (T2 vg) = Inr (T2 (mat_of K (N - 2) (\<lambda>k i. A ! k ! Suc i)))"
proof -
  have "is_matrix K N A"
    using broadcast_to_matrix[OF assms] by simp
  then have "A = mat_of K N (\<lambda>k i. A ! k ! i)"
    by (simp add: mat_of_nth)
  then have "slice_last inner_part (T2 A) = Inr (T2 (mat_of K (N - 2) (\<lambda>k i. A ! k ! Suc i)))"
    using slice_last_T2[of K N "\<lambda>k i. A ! k ! i"] by simp
  then show ?thesis
    using assms(1) by (simp add: prepare_pde_coeffs_def)
qed

lemma stencil_closed_form:
  assumes vg: "is_matrix K N vg"
    and dl: "length deltas = N - 1"
    and a: "second_order_coeff_fn t cg = Some a" "broadcast_to a (T2 vg) = Inr (T2 A)"
    and b: "first_order_coeff_fn t cg = Some b" "broadcast_to b (T2 vg) = Inr (T2 B)"
    and c: "zeroth_order_coeff_fn t cg = Some c" "broadcast_to c (T2 vg) = Inr (T2 C)"
  shows "space_discretized_stencil cg deltas (T2 vg) (Some second_order_coeff_fn)
           first_order_coeff_fn zeroth_order_coeff_fn t =
         Inr (T2 (mat_of K (N - 2) (\<lambda>k i.
                - (C ! k ! Suc i)
                - (- (B ! k ! Suc i / (deltas ! Suc i + deltas ! i))
                   - 2 * (A ! k ! Suc i) / (deltas ! Suc i + deltas ! i) / deltas ! Suc i)
                - (B ! k ! Suc i / (deltas ! Suc i + deltas ! i)
                   - 2 * (A ! k ! Suc i) / (deltas ! Suc i + deltas ! i) / deltas ! i))),
              T2 (mat_of K (N - 2) (\<lambda>k i.
                - (B ! k ! Suc i / (deltas ! Suc i + deltas ! i))
                - 2 * (A ! k ! Suc i) / (deltas ! Suc i + deltas ! i) / deltas ! Suc i)),
              T2 (mat_of K (N - 2) (\<lambda>k i.
                B ! k ! Suc i / (deltas ! Suc i + deltas ! i)
                - 2 * (A ! k ! Suc i) / (deltas ! Suc i + deltas ! i) / deltas ! i)))"
proof -
  have d: "deltas = vec_of (N - 1) (\<lambda>i. deltas ! i)"
    using dl by (simp add: vec_of_nth)
  have fw: "tl deltas = vec_of (N - 2) (\<lambda>i. deltas ! Suc i)"
    by (subst d) (simp add: eval_nat_numeral)
  have bw: "butlast deltas = vec_of (N - 2) (\<lambda>i. deltas ! i)"
    by (subst d) (simp add: eval_nat_numeral)
  show ?thesis
    unfolding space_discretized_stencil_def Let_def fw bw
    by (simp add: a b c prepare_pde_coeffs_matrix[OF _ vg] tneg_def)
qed


subsection \<open>Batch values\<close>

lemma batch_ok_T0 [simp]: "batch_ok K (T0 x)"
  by (simp add: batch_ok_def)

lemma batch_ok_T1 [simp]: "batch_ok K (T1 xs) \<longleftrightarrow> length xs = K"
  by (simp add: batch_ok_def)

lemma batch_at_T0 [simp]: "batch_at (T0 x) k = x"
  by (simp add: batch_at_def)

lemma batch_at_T1 [simp]: "batch_at (T1 xs) k = xs ! k"
  by (simp add: batch_at_def)

lemma batch_ok_cases:
  assumes "batch_ok K b"
  obtains x where "b = T0 x" | "b = T1 (vec_of K (batch_at b))"
proof (cases b)
  case (T0 x)
  then show ?thesis by (rule that(1))
next
  case (T1 xs)
  have "batch_at b = (\<lambda>k. xs ! k)"
    by (simp add: T1 fun_eq_iff)
  then have "b = T1 (vec_of K (batch_at b))"
    using assms T1 by (simp add: vec_of_nth)
  then show ?thesis by (rule that(2))
next
  case (T2 m)
  then show ?thesis using assms by (simp add: batch_ok_def)
qed

lemma tbin_T1_batch:
  assumes "batch_ok K b"
  shows "tbin f (T1 (vec_of K a)) b = Inr (T1 (vec_of K (\<lambda>k. f (a k) (batch_at b k))))"
  using assms
proof (cases rule: batch_ok_cases)
  case (1 x)
  then show ?thesis by (simp add: tbin.simps vec_of_def)
next
  case 2
  have "tbin f (T1 (vec_of K a)) (T1 (vec_of K (batch_at b)))
        = Inr (T1 (vec_of K (\<lambda>k. f (a k) (batch_at b k))))"
    by (simp add: tbin.simps)
  then show ?thesis using 2 by simp
qed

lemma tbin_batch_T1:
  assumes "batch_ok K b"
  shows "tbin f b (T1 (vec_of K a)) = Inr (T1 (vec_of K (\<lambda>k. f (batch_at b k) (a k))))"
  using assms
proof (cases rule: batch_ok_cases)
  case (1 x)
  then show ?thesis by (simp add: tbin.simps vec_of_def)
next
  case 2
  have "tbin f (T1 (vec_of K (batch_at b))) (T1 (vec_of K a))
        = Inr (T1 (vec_of K (\<lambda>k. f (batch_at b k) (a k))))"
    by (simp add: tbin.simps)
  then show ?thesis using 2 by simp
qed

lemma tbin_batch:
  assumes "batch_ok K a" "batch_ok K b"
  obtains c where "tbin f a b = Inr c" "batch_ok K c"
    "\<And>k. k < K \<Longrightarrow> batch_at c k = f (batch_at a k) (batch_at b k)"
proof (cases a)
  case (T0 x)
  show ?thesis
  proof (cases b)
    case (T0 y)
    show ?thesis
      by (rule that[of "T0 (f x y)"]) (simp_all add: \<open>a = T0 x\<close> T0 tbin.simps)
  next
    case (T1 ys)
    show ?thesis
      using assms
      by (intro that[of "T1 (map (f x) ys)"]) (simp_all add: \<open>a = T0 x\<close> T1 tbin.simps)
  next
    case (T2 m)
    then show ?thesis using assms by (simp add: batch_ok_def)
  qed
next
  case (T1 xs)
  then have xs: "a = T1 (vec_of K (\<lambda>k. xs ! k))"
    using assms by (simp add: vec_of_nth)
  show ?thesis
    by (rule that[of "T1 (vec_of K (\<lambda>k. f (xs ! k) (batch_at b k)))"])
       (subst xs, simp_all add: tbin_T1_batch[OF assms(2)] T1)
next
  case (T2 m)
  then show ?thesis using assms by (simp add: batch_ok_def)
qed

lemma batch_ok_tmap [simp]: "batch_ok K (tmap f a) = batch_ok K a"
  by (cases a) (simp_all add: tmap_def batch_ok_def)

lemma batch_at_tmap:
  "batch_ok K a \<Longrightarrow> k < K \<Longrightarrow> batch_at (tmap f a) k = f (batch_at a k)"
  by (cases a) (simp_all add: tmap_def batch_ok_def)

subsection \<open>Indexing and concatenation of matrices\<close>

lemma get_vec_of_nonneg:
  "0 \<le> i \<Longrightarrow> i < int n \<Longrightarrow> get (vec_of n v) i = Inr (v (nat i))"
  by (simp add: get_def)

lemma get_vec_of_neg:
  "i < 0 \<Longrightarrow> - int n \<le> i \<Longrightarrow> get (vec_of n v) i = Inr (v (nat (int n + i)))"
  by (simp add: get_def)

lemma get_out_of_range:
  "int (length xs) \<le> i \<or> i < - int (length xs) \<Longrightarrow> get xs i = Inl IndexError"
  by (auto simp: get_def)

lemma index_last_T2_nonneg:
  assumes "0 \<le> i" "i < int n"
  shows "index_last (T2 (mat_of K n a)) i = Inr (T1 (vec_of K (\<lambda>k. a k (nat i))))"
proof -
  have "sequence (map (\<lambda>r. get r i) (mat_of K n a)) = Inr (map (\<lambda>k. a k (nat i)) [0..<K])"
    unfolding mat_of_def map_map
    by (rule sequence_map_Inr) (simp add: get_vec_of_nonneg[OF assms])
  then show ?thesis
    by (simp add: index_last_def vec_of_def)
qed

lemma index_last_T2_neg:
  assumes "i < 0" "- int n \<le> i"
  shows "index_last (T2 (mat_of K n a)) i = Inr (T1 (vec_of K (\<lambda>k. a k (nat (int n + i)))))"
proof -
  have "sequence (map (\<lambda>r. get r i) (mat_of K n a))
        = Inr (map (\<lambda>k. a k (nat (int n + i))) [0..<K])"
    unfolding mat_of_def map_map
    by (rule sequence_map_Inr) (simp add: get_vec_of_neg[OF assms])
  then show ?thesis
    by (simp add: index_last_def vec_of_def)
qed

lemma index_last_T2_out_of_range:
  assumes "0 < K" "int n \<le> i \<or> i < - int n"
  shows "index_last (T2 (mat_of K n a)) i = Inl IndexError"
proof -
  obtain K' where K: "K = Suc K'"
    using assms(1) by (cases K) auto
  have "mat_of K n a = vec_of n (a 0) # map (\<lambda>k. vec_of n (a k)) [1..<K]"
    unfolding mat_of_def K by (simp add: upt_conv_Cons del: upt_Suc)
  then show ?thesis
    using assms(2) by (simp add: index_last_def get_out_of_range)
qed

lemma expand_dims_last_T1 [simp]:
  "expand_dims_last (T1 (vec_of K f)) = Inr (T2 (mat_of K 1 (\<lambda>k i. f k)))"
  by (simp add: expand_dims_last_def mat_of_def vec_of_def)

lemma concat_last_T2 [simp]:
  "concat_last (T2 (mat_of K n a)) (T2 (mat_of K m b))
     = Inr (T2 (mat_of K (n + m) (\<lambda>k i. if i < n then a k i else b k (i - n))))"
proof -
  have "map2 (@) (mat_of K n a) (mat_of K m b)
        = mat_of K (n + m) (\<lambda>k i. if i < n then a k i else b k (i - n))"
    by (auto simp: mat_of_def vec_of_def nth_append intro!: nth_equalityI)
  then show ?thesis by (simp add: concat_last.simps)
qed

lemma append_first_and_last_T2:
  "append_first_and_last (T1 (vec_of K f)) (T2 (mat_of K n a)) (T1 (vec_of K l))
     = Inr (T2 (mat_of K (n + 2)
         (\<lambda>k i. if i = 0 then f k else if i = Suc n then l k else a k (i - 1))))"
  by (auto simp: append_first_and_last_def intro!: mat_of_cong)

lemma append_first_T2:
  "append_first (T1 (vec_of K f)) (T2 (mat_of K n a))
     = Inr (T2 (mat_of K (Suc n) (\<lambda>k i. if i = 0 then f k else a k (i - 1))))"
  by (auto simp: append_first_def intro!: mat_of_cong)

lemma append_last_T2:
  "append_last (T2 (mat_of K n a)) (T1 (vec_of K l))
     = Inr (T2 (mat_of K (Suc n) (\<lambda>k i. if i = n then l k else a k i)))"
  by (auto simp: append_last_def intro!: mat_of_cong)

lemma slice_last_tl_T2 [simp]:
  "slice_last tl (T2 (mat_of K n a)) = Inr (T2 (mat_of K (n - 1) (\<lambda>k i. a k (Suc i))))"
  by (simp add: slice_last_def mat_of_def)

lemma slice_last_butlast_T2 [simp]:
  "slice_last butlast (T2 (mat_of K n a)) = Inr (T2 (mat_of K (n - 1) a))"
  by (simp add: slice_last_def mat_of_def)

lemma zeros_like_T2 [simp]: "zeros_like (T2 (mat_of K n a)) = T2 (mat_of K n (\<lambda>k i. 0))"
  by (simp add: zeros_like_def)


subsection \<open>Python indexing\<close>

lemma get_nonneg: "0 \<le> i \<Longrightarrow> i < int (length xs) \<Longrightarrow> get xs i = Inr (xs ! nat i)"
  by (simp add: get_def)

lemma get_neg:
  "i < 0 \<Longrightarrow> - int (length xs) \<le> i \<Longrightarrow> get xs i = Inr (xs ! nat (int (length xs) + i))"
  by (simp add: get_def)

lemma get_0: "xs \<noteq> [] \<Longrightarrow> get xs 0 = Inr (xs ! 0)"
  by (simp add: get_def)

lemma get_1: "2 \<le> length xs \<Longrightarrow> get xs 1 = Inr (xs ! 1)"
  by (simp add: get_def)

lemma get_m1: "xs \<noteq> [] \<Longrightarrow> get xs (- 1) = Inr (xs ! (length xs - 1))"
  by (cases xs) (simp_all add: get_def nat_add_distrib)

lemma get_m2: "2 \<le> length xs \<Longrightarrow> get xs (- 2) = Inr (xs ! (length xs - 2))"
  by (auto simp: get_def nat_diff_distrib' intro!: arg_cong[where f = "(!) xs"])

lemma index_last_0:
  "0 < n \<Longrightarrow> index_last (T2 (mat_of K n a)) 0 = Inr (T1 (vec_of K (\<lambda>k. a k 0)))"
  using index_last_T2_nonneg[of 0 n K a] by simp

lemma index_last_1:
  "1 < n \<Longrightarrow> index_last (T2 (mat_of K n a)) 1 = Inr (T1 (vec_of K (\<lambda>k. a k 1)))"
  using index_last_T2_nonneg[of 1 n K a] by simp

lemma index_last_m1:
  "0 < n \<Longrightarrow> index_last (T2 (mat_of K n a)) (- 1) = Inr (T1 (vec_of K (\<lambda>k. a k (n - 1))))"
  using index_last_T2_neg[of "- 1" n K a] by (simp add: nat_diff_distrib')

lemma index_last_m2:
  "1 < n \<Longrightarrow> index_last (T2 (mat_of K n a)) (- 2) = Inr (T1 (vec_of K (\<lambda>k. a k (n - 2))))"
  using index_last_T2_neg[of "- 2" n K a] by (simp add: nat_diff_distrib')

subsection \<open>The Boundary Discretizer on batch values\<close>

lemma batch_ok_smul [simp]: "batch_ok K (smul t s) = batch_ok K t"
  by (simp add: smul_def)

lemma batch_ok_tneg [simp]: "batch_ok K (tneg t) = batch_ok K t"
  by (simp add: tneg_def)

lemma batch_ok_zeros_like [simp]: "batch_ok K (zeros_like t) = batch_ok K t"
  by (simp add: zeros_like_def)

lemma batch_at_smul:
  "batch_ok K t \<Longrightarrow> k < K \<Longrightarrow> batch_at (smul t s) k = batch_at t k * s"
  by (simp add: smul_def batch_at_tmap)

lemma batch_at_tneg:
  "batch_ok K t \<Longrightarrow> k < K \<Longrightarrow> batch_at (tneg t) k = - batch_at t k"
  by (simp add: tneg_def batch_at_tmap)

lemma batch_at_zeros_like:
  "batch_ok K t \<Longrightarrow> k < K \<Longrightarrow> batch_at (zeros_like t) k = 0"
  by (simp add: zeros_like_def batch_at_tmap)

lemma tbin_batch_ex:
  assumes "batch_ok K a" "batch_ok K b"
  shows "\<exists>c. tbin f a b = Inr c \<and> batch_ok K c
             \<and> (\<forall>k<K. batch_at c k = f (batch_at a k) (batch_at b k))"
  using tbin_batch[OF assms, of f] by metis

lemma discretize_dirichlet_batch:
  assumes "batch_ok K a" "batch_ok K gamma"
  shows "\<exists>eta.
    discretize_boundary_conditions dx0 dx1 (Some a) None gamma
       = Inr (zeros_like gamma, zeros_like gamma, eta)
    \<and> batch_ok K eta
    \<and> (\<forall>k<K. batch_at eta k = batch_at gamma k / batch_at a k)"
proof -
  obtain eta where e: "tbin (/) gamma a = Inr eta" "batch_ok K eta"
    "\<And>k. k < K \<Longrightarrow> batch_at eta k = batch_at gamma k / batch_at a k"
    using tbin_batch_ex[OF assms(2,1), of "(/)"] by blast
  show ?thesis
    by (rule exI[of _ eta]) (simp add: discretize_boundary_conditions_def Let_def e)
qed

lemma discretize_robin_batch:
  assumes "batch_ok K b" "batch_ok K gamma"
    and "case alpha of None \<Rightarrow> True | Some a \<Rightarrow> batch_ok K a"
  shows "\<exists>xi1 xi2 eta.
    discretize_boundary_conditions dx0 dx1 alpha (Some b) gamma = Inr (xi1, xi2, eta)
    \<and> batch_ok K xi1 \<and> batch_ok K xi2 \<and> batch_ok K eta
    \<and> (\<forall>k<K. (batch_at xi1 k, batch_at xi2 k, batch_at eta k)
          = robin_rule dx0 dx1 (map_option (\<lambda>a. batch_at a k) alpha)
              (batch_at b k) (batch_at gamma k))"
proof -
  obtain denom where d:
    "(case alpha of
        None \<Rightarrow> Inr (smul (smul b dx1) (2 * dx0 + dx1))
      | Some a \<Rightarrow> tbin (+) (smul (smul b dx1) (2 * dx0 + dx1))
                    (smul (smul (smul a dx0) dx1) (dx0 + dx1))) = Inr denom"
    "batch_ok K denom"
    "\<And>k. k < K \<Longrightarrow> batch_at denom k
        = batch_at b k * dx1 * (2 * dx0 + dx1)
          + (case alpha of None \<Rightarrow> 0 | Some a \<Rightarrow> batch_at a k * dx0 * dx1 * (dx0 + dx1))"
  proof (cases alpha)
    case None
    show ?thesis
      by (rule that[of "smul (smul b dx1) (2 * dx0 + dx1)"])
         (simp_all add: None assms batch_at_smul[of K])
  next
    case (Some a)
    then have a: "batch_ok K a"
      using assms(3) by simp
    obtain c where c: "tbin (+) (smul (smul b dx1) (2 * dx0 + dx1))
                         (smul (smul (smul a dx0) dx1) (dx0 + dx1)) = Inr c"
      "batch_ok K c"
      "\<And>k. k < K \<Longrightarrow> batch_at c k
          = batch_at (smul (smul b dx1) (2 * dx0 + dx1)) k
            + batch_at (smul (smul (smul a dx0) dx1) (dx0 + dx1)) k"
      using tbin_batch_ex[of K "smul (smul b dx1) (2 * dx0 + dx1)"
          "smul (smul (smul a dx0) dx1) (dx0 + dx1)" "(+)"] assms(1) a
      by auto
    show ?thesis
      by (rule that[of c]) (simp_all add: Some c assms a batch_at_smul[of K])
  qed
  obtain xi1 where x1: "tbin (/) (smul (smul b (dx0 + dx1)) (dx0 + dx1)) denom = Inr xi1"
    "batch_ok K xi1"
    "\<And>k. k < K \<Longrightarrow> batch_at xi1 k
        = batch_at (smul (smul b (dx0 + dx1)) (dx0 + dx1)) k / batch_at denom k"
    using tbin_batch_ex[of K "smul (smul b (dx0 + dx1)) (dx0 + dx1)" denom "(/)"] assms(1) d(2)
    by auto
  obtain xi2 where x2: "tbin (/) (smul (smul (tneg b) dx0) dx0) denom = Inr xi2"
    "batch_ok K xi2"
    "\<And>k. k < K \<Longrightarrow> batch_at xi2 k
        = batch_at (smul (smul (tneg b) dx0) dx0) k / batch_at denom k"
    using tbin_batch_ex[of K "smul (smul (tneg b) dx0) dx0" denom "(/)"] assms(1) d(2)
    by auto
  obtain eta where e: "tbin (/) (smul (smul (smul gamma dx0) dx1) (dx0 + dx1)) denom = Inr eta"
    "batch_ok K eta"
    "\<And>k. k < K \<Longrightarrow> batch_at eta k
        = batch_at (smul (smul (smul gamma dx0) dx1) (dx0 + dx1)) k / batch_at denom k"
    using tbin_batch_ex[of K "smul (smul (smul gamma dx0) dx1) (dx0 + dx1)" denom "(/)"]
      assms(2) d(2)
    by auto
  show ?thesis
  proof (rule exI[of _ xi1], rule exI[of _ xi2], rule exI[of _ eta], intro conjI allI impI)
    show "discretize_boundary_conditions dx0 dx1 alpha (Some b) gamma = Inr (xi1, xi2, eta)"
      by (simp only: discretize_boundary_conditions_def option.case d(1) ebind_simps
            x1(1) x2(1) e(1))
    show "batch_ok K xi1" "batch_ok K xi2" "batch_ok K eta"
      by (rule x1 x2 e)+
    show "(batch_at xi1 k, batch_at xi2 k, batch_at eta k)
        = robin_rule dx0 dx1 (map_option (\<lambda>a. batch_at a k) alpha)
            (batch_at b k) (batch_at gamma k)" if k: "k < K" for k
    proof -
      have v1: "batch_at xi1 k
                = batch_at b k * (dx0 + dx1) * (dx0 + dx1) / batch_at denom k"
        using x1(3)[OF k] assms(1) k by (simp add: batch_at_smul[of K])
      have v2: "batch_at xi2 k = - batch_at b k * dx0 * dx0 / batch_at denom k"
        using x2(3)[OF k] assms(1) k by (simp add: batch_at_smul[of K] batch_at_tneg[of K])
      have v3: "batch_at eta k
                = batch_at gamma k * dx0 * dx1 * (dx0 + dx1) / batch_at denom k"
        using e(3)[OF k] assms(2) k by (simp add: batch_at_smul[of K])
      have den: "batch_at b k * dx1 * (2 * dx0 + dx1)
                 + (case map_option (\<lambda>a. batch_at a k) alpha of
                      None \<Rightarrow> 0 | Some a \<Rightarrow> a * dx0 * dx1 * (dx0 + dx1))
                 = batch_at denom k"
        using d(3)[OF k] by (cases alpha) simp_all
      have sq: "(dx0 + dx1)\<^sup>2 = (dx0 + dx1) * (dx0 + dx1)" "dx0\<^sup>2 = dx0 * dx0"
        by (simp_all only: power2_eq_square)
      show ?thesis
        unfolding robin_rule_def Let_def den v1 v2 v3 sq
        by (simp only: mult.assoc)
    qed
  qed
qed

lemma discretize_valid_batch:
  assumes "valid_boundary K (alpha, beta, gamma)"
  shows "\<exists>xi1 xi2 eta.
    discretize_boundary_conditions dx0 dx1 alpha beta gamma = Inr (xi1, xi2, eta)
    \<and> batch_ok K xi1 \<and> batch_ok K xi2 \<and> batch_ok K eta"
proof (cases beta)
  case None
  then obtain a where a: "alpha = Some a" "batch_ok K a"
    using assms by (auto simp: valid_boundary_def)
  have g: "batch_ok K gamma"
    using assms by (simp add: valid_boundary_def)
  obtain eta where
    "discretize_boundary_conditions dx0 dx1 (Some a) None gamma
       = Inr (zeros_like gamma, zeros_like gamma, eta)" "batch_ok K eta"
    using discretize_dirichlet_batch[OF a(2) g, of dx0 dx1] by blast
  then show ?thesis
    unfolding None a(1) using g by (intro exI conjI) (assumption, simp_all)
next
  case (Some b)
  then have "batch_ok K b" "batch_ok K gamma"
    "case alpha of None \<Rightarrow> True | Some a \<Rightarrow> batch_ok K a"
    using assms by (auto simp: valid_boundary_def)
  from discretize_robin_batch[OF this, of dx0 dx1] show ?thesis
    unfolding Some by blast
qed

subsection \<open>Closed forms of the boundary functions\<close>

lemma tbin_T1_T1 [simp]:
  "tbin f (T1 (vec_of K a)) (T1 (vec_of K b)) = Inr (T1 (vec_of K (\<lambda>k. f (a k) (b k))))"
  by (simp add: tbin.simps)

lemma after_step_closed_form:
  assumes n: "2 \<le> n" and dl: "2 \<le> length deltas" and g: "g \<noteq> []"
    and lo: "fst bcs t (CoordPoint (g ! 0)) = (al, bl, gl)"
      "discretize_boundary_conditions (deltas ! 0) (deltas ! 1) al bl gl = Inr (xi1, xi2, eta)"
      "batch_ok K xi1" "batch_ok K xi2" "batch_ok K eta"
    and up: "snd bcs t (CoordGrid [g]) = (au, bu, gu)"
      "discretize_boundary_conditions (deltas ! (length deltas - 1))
         (deltas ! (length deltas - 2)) au bu gu = Inr (xj1, xj2, etb)"
      "batch_ok K xj1" "batch_ok K xj2" "batch_ok K etb"
  shows "apply_boundary_conditions_after_step (T2 (mat_of K n v)) bcs [g] deltas t =
         Inr (T2 (mat_of K (n + 2) (\<lambda>k i.
           if i = 0 then batch_at xi1 k * v k 0 + batch_at xi2 k * v k 1 + batch_at eta k
           else if i = Suc n
             then batch_at xj1 k * v k (n - 1) + batch_at xj2 k * v k (n - 2) + batch_at etb k
           else v k (i - 1))))"
proof -
  have d: "deltas \<noteq> []"
    using dl by auto
  have n': "0 < n" "1 < n"
    using n by simp_all
  have lo2: "discretize_boundary_conditions (deltas ! 0) (deltas ! Suc 0) al bl gl
             = Inr (xi1, xi2, eta)"
    using lo(2) by simp
  have up2: "discretize_boundary_conditions (deltas ! (length deltas - Suc 0))
               (deltas ! (length deltas - 2)) au bu gu = Inr (xj1, xj2, etb)"
    using up(2) by simp
  show ?thesis
    unfolding apply_boundary_conditions_after_step_def
    by (simp add: get_0[OF d] get_0[OF g] get_0[of "[g]"] get_1[OF dl] get_m1[OF d]
          get_m2[OF dl] lo(1,3-) lo2 up(1,3-) up2
          index_last_0[OF n'(1)] index_last_1[OF n'(2)] index_last_m1[OF n'(1)]
          index_last_m2[OF n'(2)] tbin_batch_T1[of K] tbin_T1_batch[of K]
          append_first_and_last_T2 cong: if_cong)
qed

lemma is_matrix_inner_part:
  "is_matrix K N vg \<Longrightarrow> is_matrix K (N - 2) (map inner_part vg)"
  by (auto simp: is_matrix_def list_all_iff inner_part_def)

lemma nth_inner_part: "i < length xs - 2 \<Longrightarrow> inner_part xs ! i = xs ! Suc i"
  by (simp add: inner_part_def nth_butlast nth_tl)

lemma step_closed_form:
  assumes vg: "is_matrix K N vg" and N: "4 \<le> N" and g: "length g = N"
    and scheme: "time_marching_scheme (T2 (map inner_part vg)) t1 t0
        (equation_params_fn [g] (grid_deltas g) (T2 vg) bcs a_fn
           (or_else b_fn zero_coeff_fn) (or_else c_fn zero_coeff_fn)) = Inr (T2 out)"
      "is_matrix K (N - 2) out"
    and lo: "fst bcs t1 (CoordPoint (g ! 0)) = (al, bl, gl)"
      "discretize_boundary_conditions (grid_deltas g ! 0) (grid_deltas g ! 1) al bl gl
         = Inr (xi1, xi2, eta)"
      "batch_ok K xi1" "batch_ok K xi2" "batch_ok K eta"
    and up: "snd bcs t1 (CoordGrid [g]) = (au, bu, gu)"
      "discretize_boundary_conditions (grid_deltas g ! (N - 2)) (grid_deltas g ! (N - 3))
         au bu gu = Inr (xj1, xj2, etb)"
      "batch_ok K xj1" "batch_ok K xj2" "batch_ok K etb"
  shows "parabolic_equation_step t0 t1 [g] (T2 vg) bcs a_fn b_fn c_fn time_marching_scheme =
         Inr ([g], T2 (mat_of K N (\<lambda>k i.
           if i = 0
             then batch_at xi1 k * out ! k ! 0 + batch_at xi2 k * out ! k ! 1 + batch_at eta k
           else if i = N - 1
             then batch_at xj1 k * out ! k ! (N - 3) + batch_at xj2 k * out ! k ! (N - 4)
                  + batch_at etb k
           else out ! k ! (i - 1))))"
proof -
  have sl: "slice_last inner_part (T2 vg) = Inr (T2 (map inner_part vg))"
    by (simp add: slice_last_def)
  have out: "out = mat_of K (N - 2) (\<lambda>k i. out ! k ! i)"
    using scheme(2) by (simp add: mat_of_nth)
  have gne: "g \<noteq> []"
    using g N by auto
  have dl: "2 \<le> length (grid_deltas g)"
    using g N by simp
  have up': "discretize_boundary_conditions (grid_deltas g ! (length (grid_deltas g) - 1))
         (grid_deltas g ! (length (grid_deltas g) - 2)) au bu gu = Inr (xj1, xj2, etb)"
    using up(2) g N by (simp add: eval_nat_numeral)
  have as: "apply_boundary_conditions_after_step (T2 (mat_of K (N - 2) (\<lambda>k i. out ! k ! i)))
          bcs [g] (grid_deltas g) t1 =
        Inr (T2 (mat_of K (N - 2 + 2) (\<lambda>k i.
           if i = 0
             then batch_at xi1 k * out ! k ! 0 + batch_at xi2 k * out ! k ! 1 + batch_at eta k
           else if i = Suc (N - 2)
             then batch_at xj1 k * out ! k ! (N - 2 - 1) + batch_at xj2 k * out ! k ! (N - 2 - 2)
                  + batch_at etb k
           else out ! k ! (i - 1))))"
    using N by (intro after_step_closed_form[OF _ dl gne lo up(1) up' up(3-)]) simp
  have eq: "mat_of K (N - 2 + 2) (\<lambda>k i.
           if i = 0
             then batch_at xi1 k * out ! k ! 0 + batch_at xi2 k * out ! k ! 1 + batch_at eta k
           else if i = Suc (N - 2)
             then batch_at xj1 k * out ! k ! (N - 2 - 1) + batch_at xj2 k * out ! k ! (N - 2 - 2)
                  + batch_at etb k
           else out ! k ! (i - 1))
         = mat_of K N (\<lambda>k i.
           if i = 0
             then batch_at xi1 k * out ! k ! 0 + batch_at xi2 k * out ! k ! 1 + batch_at eta k
           else if i = N - 1
             then batch_at xj1 k * out ! k ! (N - 3) + batch_at xj2 k * out ! k ! (N - 4)
                  + batch_at etb k
           else out ! k ! (i - 1))"
  proof -
    have a: "N - 2 + 2 = N" "Suc (N - 2) = N - 1" "N - 2 - 1 = N - 3" "N - 2 - 2 = N - 4"
      using N by simp_all
    show ?thesis unfolding a by (rule refl)
  qed
  show ?thesis
    unfolding parabolic_equation_step_def Let_def sl ebind_simps get_0[of "[g]", simplified]
      scheme(1)
    by (subst out) (simp only: as eq ebind_simps)
qed

lemma after_step_needs_second_interior_value:
  assumes "index_last inner 1 = Inl IndexError"
  shows "\<exists>e. apply_boundary_conditions_after_step inner bcs cg deltas t = Inl e"
proof (cases "apply_boundary_conditions_after_step inner bcs cg deltas t")
  case (Inl e)
  then show ?thesis by blast
next
  case (Inr v)
  then have False
    unfolding apply_boundary_conditions_after_step_def
    by (auto simp: ebind_def assms split: sum.splits prod.splits)
  then show ?thesis ..
qed

lemma injector_dirichlet_closed_form:
  assumes n: "0 < n"
    and lo: "fst bcs t (CoordGrid cg) = (Some al, None, gl)" "batch_ok K al" "batch_ok K gl"
    and up: "snd bcs t (CoordGrid cg) = (Some au, None, gu)" "batch_ok K au" "batch_ok K gu"
  shows "apply_boundary_conditions_to_discretized_equation bcs cg deltas
           (T2 (mat_of K n d)) (T2 (mat_of K n u)) (T2 (mat_of K n l)) t =
         Inr ((T2 (mat_of K n d), T2 (mat_of K n u), T2 (mat_of K n l)),
              T2 (mat_of K (n - 2 + 2) (\<lambda>k i.
                if i = 0 then l k 0 * batch_at gl k / batch_at al k
                else if i = Suc (n - 2) then u k (n - 1) * batch_at gu k / batch_at au k
                else 0)))"
  unfolding apply_boundary_conditions_to_discretized_equation_def
  by (simp add: lo up index_last_0[OF n] index_last_m1[OF n] tbin_T1_batch[of K]
        tdiv_opt_def append_first_and_last_T2 cong: if_cong)

lemma injector_general_closed_form:
  assumes n: "2 \<le> n" and dl: "2 \<le> length deltas"
    and bc: "fst bcs t (CoordGrid cg) = (al, bl, gl)" "snd bcs t (CoordGrid cg) = (au, bu, gu)"
      "bl \<noteq> None \<or> bu \<noteq> None"
    and lo: "discretize_boundary_conditions (deltas ! 0) (deltas ! 1) al bl gl
               = Inr (xi1, xi2, eta)"
      "batch_ok K xi1" "batch_ok K xi2" "batch_ok K eta"
    and up: "discretize_boundary_conditions (deltas ! (length deltas - 1))
               (deltas ! (length deltas - 2)) au bu gu = Inr (xj1, xj2, etb)"
      "batch_ok K xj1" "batch_ok K xj2" "batch_ok K etb"
  shows "apply_boundary_conditions_to_discretized_equation bcs cg deltas
           (T2 (mat_of K n d)) (T2 (mat_of K n u)) (T2 (mat_of K n l)) t =
         Inr ((T2 (mat_of K n (\<lambda>k i.
                 if i = 0 then d k 0 + l k 0 * batch_at xi1 k
                 else if i = n - 1 then d k (n - 1) + u k (n - 1) * batch_at xj1 k
                 else d k i)),
               T2 (mat_of K n (\<lambda>k i.
                 if i = 0 then u k 0 + l k 0 * batch_at xi2 k else u k i)),
               T2 (mat_of K n (\<lambda>k i.
                 if i = n - 1 then l k (n - 1) + u k (n - 1) * batch_at xj2 k else l k i))),
              T2 (mat_of K n (\<lambda>k i.
                 if i = 0 then l k 0 * batch_at eta k
                 else if i = n - 1 then u k (n - 1) * batch_at etb k
                 else 0)))"
proof -
  have d: "deltas \<noteq> []"
    using dl by auto
  have n': "0 < n" "1 < n"
    using n by simp_all
  have sz: "n - 2 + 2 = n" "Suc (n - Suc 0) = n" "Suc (Suc (n - 2)) = n"
    using n by simp_all
  have lo2: "discretize_boundary_conditions (deltas ! 0) (deltas ! Suc 0) al bl gl
             = Inr (xi1, xi2, eta)"
    using lo(1) by simp
  have up2: "discretize_boundary_conditions (deltas ! (length deltas - Suc 0))
               (deltas ! (length deltas - 2)) au bu gu = Inr (xj1, xj2, etb)"
    using up(1) by simp
  have nb: "\<not> (bl = None \<and> bu = None)"
    using bc(3) by simp
  show ?thesis
    unfolding apply_boundary_conditions_to_discretized_equation_def
    using n
    by (auto simp: bc(1,2) nb get_0[OF d] get_1[OF dl] get_m1[OF d] get_m2[OF dl]
          lo2 lo(2-) up2 up(2-) index_last_0[OF n'(1)] index_last_m1[OF n'(1)]
          tbin_T1_batch[of K] append_first_and_last_T2 append_first_T2 append_last_T2 sz
          intro!: mat_of_cong)
qed

section \<open>The claims\<close>

subsection \<open>Stencil Builder\<close>

text \<open>
  C1. The value field has shape \<open>[K, N]\<close> and the grid \<open>g\<close> has \<open>N\<close> points. Each
  coefficient callable returns a value whose broadcast to the shape of the value field is
  the full-grid field \<open>A\<close>, \<open>B\<close>, \<open>C\<close>. Then the Stencil Builder returns three
  \<open>[K, N - 2]\<close> arrays, and at interior point \<open>i\<close> (grid point \<open>i + 1\<close>) with backward
  spacing \<open>h0\<close>, forward spacing \<open>h1\<close>, \<open>s = h0 + h1\<close> and the coefficient values
  \<open>a\<close>, \<open>b\<close>, \<open>c\<close> of the full-grid fields at that grid point:
  \<open>upper = -(b/s + (2*a/s)/h1)\<close>, \<open>lower = b/s - (2*a/s)/h0\<close>,
  \<open>diagonal = -c - upper - lower\<close>.
\<close>

theorem stencil_builder_formula:
  assumes "is_matrix K N vg" "length g = N"
    and "second_order_coeff_fn t [g] = Some a" "broadcast_to a (T2 vg) = Inr (T2 A)"
    and "first_order_coeff_fn t [g] = Some b" "broadcast_to b (T2 vg) = Inr (T2 B)"
    and "zeroth_order_coeff_fn t [g] = Some c" "broadcast_to c (T2 vg) = Inr (T2 C)"
  shows "\<exists>D U L.
           space_discretized_stencil [g] (grid_deltas g) (T2 vg) (Some second_order_coeff_fn)
             first_order_coeff_fn zeroth_order_coeff_fn t = Inr (T2 D, T2 U, T2 L)
         \<and> is_matrix K (N - 2) D \<and> is_matrix K (N - 2) U \<and> is_matrix K (N - 2) L
         \<and> (\<forall>k<K. \<forall>i<N - 2.
              (let h0 = g ! (i + 1) - g ! i; h1 = g ! (i + 2) - g ! (i + 1); s = h0 + h1;
                   a = A ! k ! (i + 1); b = B ! k ! (i + 1); c = C ! k ! (i + 1)
               in U ! k ! i = - (b / s + (2 * a / s) / h1)
                \<and> L ! k ! i = b / s - (2 * a / s) / h0
                \<and> D ! k ! i = - c - U ! k ! i - L ! k ! i))"
proof -
  have dl: "length (grid_deltas g) = N - 1"
    using assms(2) by simp
  note cf = stencil_closed_form[where second_order_coeff_fn = second_order_coeff_fn
      and first_order_coeff_fn = first_order_coeff_fn
      and zeroth_order_coeff_fn = zeroth_order_coeff_fn and t = t and cg = "[g]",
      OF assms(1) dl assms(3-8)]
  show ?thesis
    unfolding cf
    apply (intro exI conjI)
        apply (rule refl)
       apply simp
      apply simp
     apply simp
    using assms(2)
    apply (simp add: nth_grid_deltas Let_def add.commute)
    done
qed

theorem stencil_builder_formula_witness:
  "\<exists>D U L.
     space_discretized_stencil [[0, 1, 3, 4]] (grid_deltas [0, 1, 3, 4]) (T2 [[1, 2, 3, 4]])
       (Some (\<lambda>_ _. Some (T0 1))) (\<lambda>_ _. Some (T1 [0, 1, 2, 3])) (\<lambda>_ _. Some (T0 3)) 0
       = Inr (T2 D, T2 U, T2 L)
     \<and> U ! 0 ! 1 = - (4 / 3) \<and> L ! 0 ! 1 = 1 / 3 \<and> D ! 0 ! 1 = - 2"
proof -
  have "\<exists>D U L.
     space_discretized_stencil [[0, 1, 3, 4]] (grid_deltas [0, 1, 3, 4]) (T2 [[1, 2, 3, 4]])
       (Some (\<lambda>_ _. Some (T0 1))) (\<lambda>_ _. Some (T1 [0, 1, 2, 3])) (\<lambda>_ _. Some (T0 3)) 0
       = Inr (T2 D, T2 U, T2 L)
     \<and> is_matrix 1 (4 - 2) D \<and> is_matrix 1 (4 - 2) U \<and> is_matrix 1 (4 - 2) L
     \<and> (\<forall>k<1. \<forall>i<4 - 2.
          (let h0 = [0, 1, 3, 4::real] ! (i + 1) - [0, 1, 3, 4] ! i;
               h1 = [0, 1, 3, 4] ! (i + 2) - [0, 1, 3, 4] ! (i + 1); s = h0 + h1;
               a = [[1, 1, 1, 1::real]] ! k ! (i + 1); b = [[0, 1, 2, 3::real]] ! k ! (i + 1);
               c = [[3, 3, 3, 3::real]] ! k ! (i + 1)
           in U ! k ! i = - (b / s + (2 * a / s) / h1)
            \<and> L ! k ! i = b / s - (2 * a / s) / h0
            \<and> D ! k ! i = - c - U ! k ! i - L ! k ! i))"
    by (rule stencil_builder_formula[where a = "T0 1" and b = "T1 [0, 1, 2, 3]" and c = "T0 3"])
       (simp_all add: is_matrix_def broadcast_to_def row_to_def)
  then obtain D U L where
    eq: "space_discretized_stencil [[0, 1, 3, 4]] (grid_deltas [0, 1, 3, 4]) (T2 [[1, 2, 3, 4]])
       (Some (\<lambda>_ _. Some (T0 1))) (\<lambda>_ _. Some (T1 [0, 1, 2, 3])) (\<lambda>_ _. Some (T0 3)) 0
       = Inr (T2 D, T2 U, T2 L)"
    and en: "\<forall>k<1. \<forall>i<4 - 2.
          (let h0 = [0, 1, 3, 4::real] ! (i + 1) - [0, 1, 3, 4] ! i;
               h1 = [0, 1, 3, 4] ! (i + 2) - [0, 1, 3, 4] ! (i + 1); s = h0 + h1;
               a = [[1, 1, 1, 1::real]] ! k ! (i + 1); b = [[0, 1, 2, 3::real]] ! k ! (i + 1);
               c = [[3, 3, 3, 3::real]] ! k ! (i + 1)
           in U ! k ! i = - (b / s + (2 * a / s) / h1)
            \<and> L ! k ! i = b / s - (2 * a / s) / h0
            \<and> D ! k ! i = - c - U ! k ! i - L ! k ! i)"
    by blast
  from en[rule_format, of 0 1] have "U ! 0 ! 1 = - (4 / 3) \<and> L ! 0 ! 1 = 1 / 3 \<and> D ! 0 ! 1 = - 2"
    by (simp add: Let_def eval_nat_numeral)
  with eq show ?thesis by blast
qed

text \<open>
  C7. On a uniform grid of spacing \<open>h > 0\<close> the stencil is the standard central-difference
  one: \<open>diagonal = -c + 2a/h\<^sup>2\<close>, \<open>upper = -(b/(2h) + a/h\<^sup>2)\<close>,
  \<open>lower = b/(2h) - a/h\<^sup>2\<close>, for all coefficient values.
\<close>

theorem uniform_grid_stencil:
  assumes "is_matrix K N vg" "length g = N"
    and "\<forall>i<N - 1. g ! (i + 1) - g ! i = h" "0 < h"
    and "second_order_coeff_fn t [g] = Some a" "broadcast_to a (T2 vg) = Inr (T2 A)"
    and "first_order_coeff_fn t [g] = Some b" "broadcast_to b (T2 vg) = Inr (T2 B)"
    and "zeroth_order_coeff_fn t [g] = Some c" "broadcast_to c (T2 vg) = Inr (T2 C)"
  shows "\<exists>D U L.
           space_discretized_stencil [g] (grid_deltas g) (T2 vg) (Some second_order_coeff_fn)
             first_order_coeff_fn zeroth_order_coeff_fn t = Inr (T2 D, T2 U, T2 L)
         \<and> is_matrix K (N - 2) D \<and> is_matrix K (N - 2) U \<and> is_matrix K (N - 2) L
         \<and> (\<forall>k<K. \<forall>i<N - 2.
              (let a = A ! k ! (i + 1); b = B ! k ! (i + 1); c = C ! k ! (i + 1)
               in D ! k ! i = - c + 2 * a / h\<^sup>2
                \<and> U ! k ! i = - (b / (2 * h) + a / h\<^sup>2)
                \<and> L ! k ! i = b / (2 * h) - a / h\<^sup>2))"
proof -
  have dl: "length (grid_deltas g) = N - 1"
    using assms(2) by simp
  have d0: "grid_deltas g ! i = h" if "i < N - 2" for i
    using that assms(2,3) by (simp add: nth_grid_deltas)
  have d1: "grid_deltas g ! Suc i = h" if "i < N - 2" for i
    using that assms(2,3) by (simp add: nth_grid_deltas)
  note cf = stencil_closed_form[where second_order_coeff_fn = second_order_coeff_fn
      and first_order_coeff_fn = first_order_coeff_fn
      and zeroth_order_coeff_fn = zeroth_order_coeff_fn and t = t and cg = "[g]",
      OF assms(1) dl assms(5-10)]
  show ?thesis
    unfolding cf
    apply (intro exI conjI)
        apply (rule refl)
       apply simp
      apply simp
     apply simp
    using assms(4)
    apply (simp add: d0 d1 Let_def power2_eq_square field_simps)
    done
qed

theorem uniform_grid_stencil_witness:
  "\<exists>D U L.
     space_discretized_stencil [[0, 1, 2, 3]] (grid_deltas [0, 1, 2, 3]) (T2 [[1, 2, 3, 4]])
       (Some (\<lambda>_ _. Some (T0 1))) (\<lambda>_ _. Some (T1 [0, 1, 2, 3])) (\<lambda>_ _. Some (T0 3)) 0
       = Inr (T2 D, T2 U, T2 L)
     \<and> D ! 0 ! 1 = - 1 \<and> U ! 0 ! 1 = - 2 \<and> L ! 0 ! 1 = 0"
proof -
  have "\<exists>D U L.
     space_discretized_stencil [[0, 1, 2, 3]] (grid_deltas [0, 1, 2, 3]) (T2 [[1, 2, 3, 4]])
       (Some (\<lambda>_ _. Some (T0 1))) (\<lambda>_ _. Some (T1 [0, 1, 2, 3])) (\<lambda>_ _. Some (T0 3)) 0
       = Inr (T2 D, T2 U, T2 L)
     \<and> is_matrix 1 (4 - 2) D \<and> is_matrix 1 (4 - 2) U \<and> is_matrix 1 (4 - 2) L
     \<and> (\<forall>k<1. \<forall>i<4 - 2.
          (let a = [[1, 1, 1, 1::real]] ! k ! (i + 1); b = [[0, 1, 2, 3::real]] ! k ! (i + 1);
               c = [[3, 3, 3, 3::real]] ! k ! (i + 1)
           in D ! k ! i = - c + 2 * a / 1\<^sup>2
            \<and> U ! k ! i = - (b / (2 * 1) + a / 1\<^sup>2)
            \<and> L ! k ! i = b / (2 * 1) - a / 1\<^sup>2))"
    by (rule uniform_grid_stencil[where a = "T0 1" and b = "T1 [0, 1, 2, 3]" and c = "T0 3"])
       (simp_all add: is_matrix_def broadcast_to_def row_to_def eval_nat_numeral All_less_Suc)
  then obtain D U L where
    eq: "space_discretized_stencil [[0, 1, 2, 3]] (grid_deltas [0, 1, 2, 3]) (T2 [[1, 2, 3, 4]])
       (Some (\<lambda>_ _. Some (T0 1))) (\<lambda>_ _. Some (T1 [0, 1, 2, 3])) (\<lambda>_ _. Some (T0 3)) 0
       = Inr (T2 D, T2 U, T2 L)"
    and en: "\<forall>k<1. \<forall>i<4 - 2.
          (let a = [[1, 1, 1, 1::real]] ! k ! (i + 1); b = [[0, 1, 2, 3::real]] ! k ! (i + 1);
               c = [[3, 3, 3, 3::real]] ! k ! (i + 1)
           in D ! k ! i = - c + 2 * a / 1\<^sup>2
            \<and> U ! k ! i = - (b / (2 * 1) + a / 1\<^sup>2)
            \<and> L ! k ! i = b / (2 * 1) - a / 1\<^sup>2)"
    by blast
  from en[rule_format, of 0 1] have "D ! 0 ! 1 = - 1 \<and> U ! 0 ! 1 = - 2 \<and> L ! 0 ! 1 = 0"
    by (simp add: Let_def eval_nat_numeral)
  with eq show ?thesis by blast
qed

subsection \<open>Absent values\<close>

lemma discretize_both_absent:
  "discretize_boundary_conditions dx0 dx1 None None gamma = Inl InvalidBoundaryConditions"
  by (simp add: discretize_boundary_conditions_def)

lemma absent_lower_order_coeff_fn_is_zero_fn:
  "parabolic_equation_step time next_time coord_grid value_grid boundary_conditions
       second_order_coeff_fn None None time_marching_scheme =
   parabolic_equation_step time next_time coord_grid value_grid boundary_conditions
       second_order_coeff_fn (Some zero_coeff_fn) (Some zero_coeff_fn)
       time_marching_scheme"
  by (simp add: parabolic_equation_step_def or_else_def)

text \<open>
  C4. A boundary condition with \<open>alpha = None\<close> and \<open>beta = None\<close> is to be detected
  explicitly, for each edge on its own. The Boundary Discretizer does so, but when
  \<open>beta\<close> is absent at both edges the Boundary Injector takes the Dirichlet shortcut,
  never calls the discretizer, and divides by the absent \<open>alpha\<close>: the exception is the
  array library's, at the lower edge as at the upper one. With \<open>beta\<close> present at the
  other edge the explicit diagnostic is raised.
\<close>

theorem dirichlet_shortcut_misses_invalid_configuration:
  "apply_boundary_conditions_to_discretized_equation
     (\<lambda>t x. (None, None, T0 3), dirichlet 6) [[0, 1, 3, 4]] [1, 2, 1]
     (T2 [[1, 2]]) (T2 [[1, 2]]) (T2 [[1, 2]]) 0 = Inl NoneValue
   \<and> apply_boundary_conditions_to_discretized_equation
     (dirichlet 6, \<lambda>t x. (None, None, T0 3)) [[0, 1, 3, 4]] [1, 2, 1]
     (T2 [[1, 2]]) (T2 [[1, 2]]) (T2 [[1, 2]]) 0 = Inl NoneValue
   \<and> apply_boundary_conditions_to_discretized_equation
     (\<lambda>t x. (None, None, T0 3), \<lambda>t x. (None, Some (T0 1), T0 3)) [[0, 1, 3, 4]] [1, 2, 1]
     (T2 [[1, 2]]) (T2 [[1, 2]]) (T2 [[1, 2]]) 0 = Inl InvalidBoundaryConditions
   \<and> parabolic_equation_step 1 0 [[0, 1, 3, 4]] (T2 [[9, 7, 8, 9]])
     (\<lambda>t x. (None, None, T0 3), dirichlet 6) (Some (\<lambda>_ _. Some (T0 1))) None None
     probing_scheme = Inl NoneValue"
  by (simp add: parabolic_equation_step_def probing_scheme_def dirichlet_def
        construct_space_discretized_eqn_params_def space_discretized_stencil_def
        apply_boundary_conditions_to_discretized_equation_def
        discretize_boundary_conditions_def tensor_defs tbin.simps concat_last.simps)

text \<open>
  C5. An absent first-order or zeroth-order coefficient function is replaced by the zero
  function (lemma \<open>absent_lower_order_coeff_fn_is_zero_fn\<close>). An absent second-order
  coefficient function is not replaced: as soon as the time-marching routine asks for the
  equation, the call of \<open>None\<close> raises, where the zero function lets the step complete.
\<close>

theorem absent_second_order_coeff_fn_raises:
  "parabolic_equation_step 1 0 [[0, 1, 2, 3]] (T2 [[1, 2, 3, 4]]) (dirichlet 5, dirichlet 6)
     None None None probing_scheme = Inl NoneNotCallable
   \<and> parabolic_equation_step 1 0 [[0, 1, 2, 3]] (T2 [[1, 2, 3, 4]]) (dirichlet 5, dirichlet 6)
     (Some (\<lambda>_ _. Some (T0 0))) None None probing_scheme
     = Inr ([[0, 1, 2, 3]], T2 [[5, 2, 3, 6]])"
  by (simp add: parabolic_equation_step_def probing_scheme_def dirichlet_def
        construct_space_discretized_eqn_params_def space_discretized_stencil_def
        apply_boundary_conditions_to_discretized_equation_def
        apply_boundary_conditions_after_step_def
        discretize_boundary_conditions_def tensor_defs tbin.simps concat_last.simps)

subsection \<open>Arguments of the boundary callables\<close>

text \<open>
  C6. Both boundary callables are to receive the time and the coordinate grid. After the
  step the upper callable receives the list of grids, but the lower one receives the first
  coordinate \<open>coord_grid[0][0]\<close>: the same callable at both edges, returning 1 for a
  grid and 0 for a single coordinate, yields 0 at the lower edge and 1 at the upper one.
\<close>

theorem after_step_lower_callable_receives_coordinate:
  "parabolic_equation_step 1 0 [[0, 1, 3, 4]] (T2 [[9, 7, 8, 9]])
     (argument_probe, argument_probe) (Some (\<lambda>_ _. Some (T0 1))) None None identity_scheme
     = Inr ([[0, 1, 3, 4]], T2 [[0, 7, 8, 1]])"
  by (simp add: parabolic_equation_step_def identity_scheme_def argument_probe_def
        apply_boundary_conditions_after_step_def discretize_boundary_conditions_def
        tensor_defs tbin.simps concat_last.simps)

subsection \<open>The Step Driver\<close>

text \<open>
  C9, amended to grids of at least four points. The value field has shape \<open>[K, N]\<close>
  with \<open>N \<ge> 4\<close>, the grid has \<open>N\<close> points, the time-marching routine, called as the
  step calls it, returns an interior field of the shape \<open>[K, N - 2]\<close> it received, and
  the two boundary callables return valid triples at the new time. Then the step returns,
  whichever coefficient functions are present or absent, and the returned value field has
  shape \<open>[K, N]\<close>. Stated for every grid size it fails: the three-point example
  follows the witness.
\<close>

theorem step_preserves_shape:
  assumes "is_matrix K N vg" and "4 \<le> N" and "length g = N"
    and "time_marching_scheme (T2 (map inner_part vg)) t1 t0
        (equation_params_fn [g] (grid_deltas g) (T2 vg) bcs a_fn
           (or_else b_fn zero_coeff_fn) (or_else c_fn zero_coeff_fn)) = Inr (T2 out)"
    and "is_matrix K (N - 2) out"
    and "valid_boundary K (fst bcs t1 (CoordPoint (g ! 0)))"
    and "valid_boundary K (snd bcs t1 (CoordGrid [g]))"
  shows "\<exists>V. parabolic_equation_step t0 t1 [g] (T2 vg) bcs a_fn b_fn c_fn
               time_marching_scheme = Inr ([g], T2 V)
             \<and> is_matrix K N V"
proof -
  obtain al bl gl where lo: "fst bcs t1 (CoordPoint (g ! 0)) = (al, bl, gl)"
    by (cases "fst bcs t1 (CoordPoint (g ! 0))") auto
  obtain au bu gu where up: "snd bcs t1 (CoordGrid [g]) = (au, bu, gu)"
    by (cases "snd bcs t1 (CoordGrid [g])") auto
  obtain xi1 xi2 eta where l:
    "discretize_boundary_conditions (grid_deltas g ! 0) (grid_deltas g ! 1) al bl gl
       = Inr (xi1, xi2, eta)" "batch_ok K xi1" "batch_ok K xi2" "batch_ok K eta"
    using discretize_valid_batch[of K al bl gl "grid_deltas g ! 0" "grid_deltas g ! 1"]
      assms(6) lo by auto
  obtain xj1 xj2 etb where u:
    "discretize_boundary_conditions (grid_deltas g ! (N - 2)) (grid_deltas g ! (N - 3))
       au bu gu = Inr (xj1, xj2, etb)" "batch_ok K xj1" "batch_ok K xj2" "batch_ok K etb"
    using discretize_valid_batch[of K au bu gu "grid_deltas g ! (N - 2)"
        "grid_deltas g ! (N - 3)"] assms(7) up by auto
  show ?thesis
    unfolding step_closed_form[where time_marching_scheme = time_marching_scheme
        and bcs = bcs and ?t1.0 = t1 and ?t0.0 = t0, OF assms(1-5) lo l up u]
    by (intro exI conjI) (rule refl, simp)
qed

theorem step_preserves_shape_witness:
  "\<exists>V. parabolic_equation_step 1 0 [[0, 1, 3, 4]] (T2 [[9, 7, 8, 9], [1, 2, 3, 4]])
         (\<lambda>t x. (Some (T0 1), Some (T1 [1, 2]), T0 2), dirichlet 6)
         (Some (\<lambda>_ _. Some (T0 1))) None None probing_scheme
       = Inr ([[0, 1, 3, 4]], T2 V)
     \<and> is_matrix 2 4 V"
  by (rule step_preserves_shape[where out = "[[7, 8], [2, 3]]"])
     (simp_all add: is_matrix_def valid_boundary_def batch_ok_def probing_scheme_def
        dirichlet_def construct_space_discretized_eqn_params_def
        space_discretized_stencil_def
        apply_boundary_conditions_to_discretized_equation_def
        discretize_boundary_conditions_def tensor_defs tbin.simps concat_last.simps)

text \<open>
  Shape preservation on a grid of three points. The value field has shape \<open>[2, 3]\<close>,
  both boundary conditions are valid Dirichlet conditions, and the routine builds the
  equation at \<open>t1\<close> and returns the \<open>[2, 1]\<close> interior field it received; yet no field
  is returned, since the reconstruction of the boundary reads the second interior value.
\<close>

theorem step_on_three_points_returns_no_field:
  "is_matrix 2 3 [[9, 7, 9], [1, 2, 3]]
   \<and> length [0, 1, 2 :: real] = 3
   \<and> probing_scheme (T2 (map inner_part [[9, 7, 9], [1, 2, 3]])) 0 1
       (equation_params_fn [[0, 1, 2]] (grid_deltas [0, 1, 2]) (T2 [[9, 7, 9], [1, 2, 3]])
          (dirichlet 5, dirichlet 6) (Some (\<lambda>_ _. Some (T0 1)))
          (or_else None zero_coeff_fn) (or_else None zero_coeff_fn))
       = Inr (T2 [[7], [2]])
   \<and> is_matrix 2 (3 - 2) [[7], [2]]
   \<and> valid_boundary 2 (fst (dirichlet 5, dirichlet 6) 0 (CoordPoint ([0, 1, 2] ! 0)))
   \<and> valid_boundary 2 (snd (dirichlet 5, dirichlet 6) 0 (CoordGrid [[0, 1, 2]]))
   \<and> parabolic_equation_step 1 0 [[0, 1, 2]] (T2 [[9, 7, 9], [1, 2, 3]])
       (dirichlet 5, dirichlet 6) (Some (\<lambda>_ _. Some (T0 1))) None None probing_scheme
       = Inl IndexError"
  by (simp add: is_matrix_def valid_boundary_def batch_ok_def parabolic_equation_step_def
        probing_scheme_def dirichlet_def construct_space_discretized_eqn_params_def
        space_discretized_stencil_def
        apply_boundary_conditions_to_discretized_equation_def
        apply_boundary_conditions_after_step_def
        discretize_boundary_conditions_def tensor_defs tbin.simps concat_last.simps)

text \<open>
  C8, amended to grids of at least four points. On a grid of \<open>N \<ge> 4\<close> points, with
  Dirichlet conditions \<open>alpha = 1\<close>, \<open>beta = None\<close> at both edges, right-hand sides
  \<open>g_lower\<close> and \<open>g_upper\<close> (functions of time; numbers or batch vectors) and the
  identity time-marching routine, one step returns a field whose first entry is
  \<open>g_lower\<close> at \<open>t1\<close>, whose last entry is \<open>g_upper\<close> at \<open>t1\<close> and whose interior
  entries are those of the input. The identity routine never asks for the equation, so
  this holds for all coefficient functions, in particular for the zero ones. Stated for
  every grid it fails: the three-point example follows the witness.
\<close>

theorem dirichlet_identity:
  assumes "is_matrix K N vg" and "4 \<le> N" and "length g = N"
    and "batch_ok K (g_lower t1)" and "batch_ok K (g_upper t1)"
  shows "\<exists>V. parabolic_equation_step t0 t1 [g] (T2 vg)
               (\<lambda>t x. (Some (T0 1), None, g_lower t), \<lambda>t x. (Some (T0 1), None, g_upper t))
               a_fn b_fn c_fn identity_scheme = Inr ([g], T2 V)
             \<and> is_matrix K N V
             \<and> (\<forall>k<K. V ! k ! 0 = batch_at (g_lower t1) k
                      \<and> V ! k ! (N - 1) = batch_at (g_upper t1) k
                      \<and> (\<forall>i. 0 < i \<and> i < N - 1 \<longrightarrow> V ! k ! i = vg ! k ! i))"
proof -
  let ?bcs = "(\<lambda>t x. (Some (T0 1), None, g_lower t), \<lambda>t x. (Some (T0 1), None, g_upper t))
                :: boundary_fn \<times> boundary_fn"
  have sch: "identity_scheme (T2 (map inner_part vg)) t1 t0
        (equation_params_fn [g] (grid_deltas g) (T2 vg) ?bcs a_fn
           (or_else b_fn zero_coeff_fn) (or_else c_fn zero_coeff_fn))
        = Inr (T2 (map inner_part vg))"
    by (simp add: identity_scheme_def)
  have inner: "is_matrix K (N - 2) (map inner_part vg)"
    using assms(1) by (rule is_matrix_inner_part)
  have lo: "fst ?bcs t1 (CoordPoint (g ! 0)) = (Some (T0 1), None, g_lower t1)"
    and up: "snd ?bcs t1 (CoordGrid [g]) = (Some (T0 1), None, g_upper t1)"
    by simp_all
  obtain eta where l:
    "discretize_boundary_conditions (grid_deltas g ! 0) (grid_deltas g ! 1)
       (Some (T0 1)) None (g_lower t1)
       = Inr (zeros_like (g_lower t1), zeros_like (g_lower t1), eta)"
    "batch_ok K eta" "\<forall>k<K. batch_at eta k = batch_at (g_lower t1) k / batch_at (T0 1) k"
    using discretize_dirichlet_batch[of K "T0 1" "g_lower t1" "grid_deltas g ! 0"
        "grid_deltas g ! 1"] assms(4) by auto
  obtain etb where u:
    "discretize_boundary_conditions (grid_deltas g ! (N - 2)) (grid_deltas g ! (N - 3))
       (Some (T0 1)) None (g_upper t1)
       = Inr (zeros_like (g_upper t1), zeros_like (g_upper t1), etb)"
    "batch_ok K etb" "\<forall>k<K. batch_at etb k = batch_at (g_upper t1) k / batch_at (T0 1) k"
    using discretize_dirichlet_batch[of K "T0 1" "g_upper t1" "grid_deltas g ! (N - 2)"
        "grid_deltas g ! (N - 3)"] assms(5) by auto
  have zl: "batch_ok K (zeros_like (g_lower t1))" and zu: "batch_ok K (zeros_like (g_upper t1))"
    using assms(4,5) by simp_all
  note cf = step_closed_form[where time_marching_scheme = identity_scheme
      and bcs = ?bcs and ?t1.0 = t1 and ?t0.0 = t0,
      OF assms(1-3) sch inner lo l(1) zl zl l(2) up u(1) zu zu u(2)]
  have rows: "length (vg ! k) = N" if "k < K" for k
    using assms(1) that by (simp add: is_matrix_def list_all_length)
  show ?thesis
    unfolding cf
  proof (intro exI conjI allI impI)
    show "Inr ([g], T2 (mat_of K N (\<lambda>k i.
           if i = 0
             then batch_at (zeros_like (g_lower t1)) k * map inner_part vg ! k ! 0
                  + batch_at (zeros_like (g_lower t1)) k * map inner_part vg ! k ! 1
                  + batch_at eta k
           else if i = N - 1
             then batch_at (zeros_like (g_upper t1)) k * map inner_part vg ! k ! (N - 3)
                  + batch_at (zeros_like (g_upper t1)) k * map inner_part vg ! k ! (N - 4)
                  + batch_at etb k
           else map inner_part vg ! k ! (i - 1)))) =
      Inr ([g], T2 (mat_of K N (\<lambda>k i.
           if i = 0
             then batch_at (zeros_like (g_lower t1)) k * map inner_part vg ! k ! 0
                  + batch_at (zeros_like (g_lower t1)) k * map inner_part vg ! k ! 1
                  + batch_at eta k
           else if i = N - 1
             then batch_at (zeros_like (g_upper t1)) k * map inner_part vg ! k ! (N - 3)
                  + batch_at (zeros_like (g_upper t1)) k * map inner_part vg ! k ! (N - 4)
                  + batch_at etb k
           else map inner_part vg ! k ! (i - 1))))"
      by (rule refl)
    show "is_matrix K N (mat_of K N (\<lambda>k i.
           if i = 0
             then batch_at (zeros_like (g_lower t1)) k * map inner_part vg ! k ! 0
                  + batch_at (zeros_like (g_lower t1)) k * map inner_part vg ! k ! 1
                  + batch_at eta k
           else if i = N - 1
             then batch_at (zeros_like (g_upper t1)) k * map inner_part vg ! k ! (N - 3)
                  + batch_at (zeros_like (g_upper t1)) k * map inner_part vg ! k ! (N - 4)
                  + batch_at etb k
           else map inner_part vg ! k ! (i - 1)))"
      by simp
  next
    fix k assume k: "k < K"
    let ?V = "mat_of K N (\<lambda>k i.
           if i = 0
             then batch_at (zeros_like (g_lower t1)) k * map inner_part vg ! k ! 0
                  + batch_at (zeros_like (g_lower t1)) k * map inner_part vg ! k ! 1
                  + batch_at eta k
           else if i = N - 1
             then batch_at (zeros_like (g_upper t1)) k * map inner_part vg ! k ! (N - 3)
                  + batch_at (zeros_like (g_upper t1)) k * map inner_part vg ! k ! (N - 4)
                  + batch_at etb k
           else map inner_part vg ! k ! (i - 1))"
    show "?V ! k ! 0 = batch_at (g_lower t1) k"
      using k assms(2,4) l(3) by (simp add: batch_at_zeros_like[of K])
    show "?V ! k ! (N - 1) = batch_at (g_upper t1) k"
      using k assms(2,5) u(3) by (simp add: batch_at_zeros_like[of K])
    fix i assume i: "0 < i \<and> i < N - 1"
    have K: "length vg = K"
      using assms(1) by (simp add: is_matrix_def)
    from i have i': "i \<noteq> 0" "i \<noteq> N - 1" "i < N" "i - 1 < N - 2" "Suc (i - 1) = i"
      by auto
    have "?V ! k ! i = map inner_part vg ! k ! (i - 1)"
      using k i' by simp
    also have "\<dots> = inner_part (vg ! k) ! (i - 1)"
      using k K by simp
    also have "\<dots> = vg ! k ! i"
      using nth_inner_part[of "i - 1" "vg ! k"] i' rows[OF k] by simp
    finally show "?V ! k ! i = vg ! k ! i" .
  qed
qed

theorem dirichlet_identity_witness:
  "\<exists>V. parabolic_equation_step 1 0 [[0, 1, 3, 4]] (T2 [[9, 7, 8, 9]])
         (\<lambda>t x. (Some (T0 1), None, T0 (t + 5)), \<lambda>t x. (Some (T0 1), None, T1 [t + 6]))
         (Some zero_coeff_fn) (Some zero_coeff_fn) (Some zero_coeff_fn) identity_scheme
       = Inr ([[0, 1, 3, 4]], T2 V)
     \<and> V ! 0 ! 0 = 5 \<and> V ! 0 ! 3 = 6 \<and> V ! 0 ! 1 = 7 \<and> V ! 0 ! 2 = 8"
proof -
  have "\<exists>V. parabolic_equation_step 1 0 [[0, 1, 3, 4]] (T2 [[9, 7, 8, 9]])
         (\<lambda>t x. (Some (T0 1), None, T0 (t + 5)), \<lambda>t x. (Some (T0 1), None, T1 [t + 6]))
         (Some zero_coeff_fn) (Some zero_coeff_fn) (Some zero_coeff_fn) identity_scheme
       = Inr ([[0, 1, 3, 4]], T2 V)
     \<and> is_matrix 1 4 V
     \<and> (\<forall>k<1. V ! k ! 0 = batch_at (T0 (0 + 5)) k
              \<and> V ! k ! (4 - 1) = batch_at (T1 [0 + 6]) k
              \<and> (\<forall>i. 0 < i \<and> i < 4 - 1 \<longrightarrow> V ! k ! i = [[9, 7, 8, 9]] ! k ! i))"
    by (rule dirichlet_identity[where g_lower = "\<lambda>t. T0 (t + 5)"
          and g_upper = "\<lambda>t. T1 [t + 6]"])
       (simp_all add: is_matrix_def)
  then obtain V where
    eq: "parabolic_equation_step 1 0 [[0, 1, 3, 4]] (T2 [[9, 7, 8, 9]])
         (\<lambda>t x. (Some (T0 1), None, T0 (t + 5)), \<lambda>t x. (Some (T0 1), None, T1 [t + 6]))
         (Some zero_coeff_fn) (Some zero_coeff_fn) (Some zero_coeff_fn) identity_scheme
       = Inr ([[0, 1, 3, 4]], T2 V)"
    and en: "\<forall>k<1. V ! k ! 0 = batch_at (T0 (0 + 5)) k
              \<and> V ! k ! (4 - 1) = batch_at (T1 [0 + 6]) k
              \<and> (\<forall>i. 0 < i \<and> i < 4 - 1 \<longrightarrow> V ! k ! i = [[9, 7, 8, 9]] ! k ! i)"
    by blast
  from en[rule_format, of 0] have
    a: "V ! 0 ! 0 = 5" "V ! 0 ! 3 = 6"
    and b: "\<And>i. 0 < i \<and> i < 4 - 1 \<Longrightarrow> V ! 0 ! i = [[9, 7, 8, 9]] ! 0 ! i"
    by simp_all
  from b[of 1] b[of 2] have "V ! 0 ! 1 = 7" "V ! 0 ! 2 = 8"
    by simp_all
  with eq a show ?thesis by blast
qed

text \<open>
  The Dirichlet identity on a grid of three points. Every other condition of the
  statement holds, with all three coefficients zero, but the step raises an index error
  instead of returning the field with the boundary values \<open>5\<close> and \<open>6\<close>.
\<close>

theorem dirichlet_identity_fails_on_three_points:
  "is_matrix 1 3 [[9, 7, 9]]
   \<and> length [0, 1, 2 :: real] = 3
   \<and> batch_ok 1 (T0 5) \<and> batch_ok 1 (T0 6)
   \<and> parabolic_equation_step 1 0 [[0, 1, 2]] (T2 [[9, 7, 9]])
       (\<lambda>t x. (Some (T0 1), None, T0 5), \<lambda>t x. (Some (T0 1), None, T0 6))
       (Some zero_coeff_fn) (Some zero_coeff_fn) (Some zero_coeff_fn) identity_scheme
       = Inl IndexError"
  by (simp add: is_matrix_def parabolic_equation_step_def identity_scheme_def
        apply_boundary_conditions_after_step_def discretize_boundary_conditions_def
        tensor_defs tbin.simps concat_last.simps)

text \<open>
  C10. For a grid of \<open>N \<ge> 4\<close> points the spacings \<open>deltas[0]\<close>, \<open>deltas[1]\<close>,
  \<open>deltas[-1]\<close>, \<open>deltas[-2]\<close> and the interior values \<open>inner[..., 0]\<close>,
  \<open>inner[..., 1]\<close>, \<open>inner[..., -1]\<close>, \<open>inner[..., -2]\<close> are all in bounds. For
  \<open>N < 4\<close> the access \<open>inner[..., 1]\<close> is out of range and the post-step
  reconstruction raises; the step on the three-point grid \<open>[0, 1, 2]\<close> ends with an index
  error.
\<close>

theorem grid_size_precondition:
  assumes "is_matrix K (N - 2) inner" and "0 < K" and "length g = N"
  shows "(4 \<le> N \<longrightarrow>
            get (grid_deltas g) 0 = Inr (g ! 1 - g ! 0)
          \<and> get (grid_deltas g) 1 = Inr (g ! 2 - g ! 1)
          \<and> get (grid_deltas g) (- 1) = Inr (g ! (N - 1) - g ! (N - 2))
          \<and> get (grid_deltas g) (- 2) = Inr (g ! (N - 2) - g ! (N - 3))
          \<and> index_last (T2 inner) 0 = Inr (T1 (vec_of K (\<lambda>k. inner ! k ! 0)))
          \<and> index_last (T2 inner) 1 = Inr (T1 (vec_of K (\<lambda>k. inner ! k ! 1)))
          \<and> index_last (T2 inner) (- 1) = Inr (T1 (vec_of K (\<lambda>k. inner ! k ! (N - 3))))
          \<and> index_last (T2 inner) (- 2) = Inr (T1 (vec_of K (\<lambda>k. inner ! k ! (N - 4)))))
       \<and> (N < 4 \<longrightarrow>
            index_last (T2 inner) 1 = Inl IndexError
          \<and> (\<forall>bcs t. \<exists>e. apply_boundary_conditions_after_step (T2 inner) bcs [g]
                              (grid_deltas g) t = Inl e))
       \<and> parabolic_equation_step 1 0 [[0, 1, 2]] (T2 [[9, 7, 9]]) (dirichlet 5, dirichlet 6)
            (Some zero_coeff_fn) None None identity_scheme = Inl IndexError"
proof (intro conjI impI)
  have inner: "inner = mat_of K (N - 2) (\<lambda>k i. inner ! k ! i)"
    using assms(1) by (simp add: mat_of_nth)
  {
    assume N: "4 \<le> N"
    have dl: "2 \<le> length (grid_deltas g)" and d: "grid_deltas g \<noteq> []"
      using assms(3) N by (simp_all flip: length_0_conv)
    show "get (grid_deltas g) 0 = Inr (g ! 1 - g ! 0)"
      using get_0[OF d] assms(3) N by (simp add: nth_grid_deltas)
    show "get (grid_deltas g) 1 = Inr (g ! 2 - g ! 1)"
      using get_1[OF dl] assms(3) N by (simp add: nth_grid_deltas eval_nat_numeral)
    show "get (grid_deltas g) (- 1) = Inr (g ! (N - 1) - g ! (N - 2))"
      using get_m1[OF d] assms(3) N by (simp add: nth_grid_deltas eval_nat_numeral Suc_diff_Suc)
    show "get (grid_deltas g) (- 2) = Inr (g ! (N - 2) - g ! (N - 3))"
      using get_m2[OF dl] assms(3) N by (simp add: nth_grid_deltas eval_nat_numeral Suc_diff_Suc)
    show "index_last (T2 inner) 0 = Inr (T1 (vec_of K (\<lambda>k. inner ! k ! 0)))"
      using index_last_0[of "N - 2" K "\<lambda>k i. inner ! k ! i"] inner N by simp
    show "index_last (T2 inner) 1 = Inr (T1 (vec_of K (\<lambda>k. inner ! k ! 1)))"
      using index_last_1[of "N - 2" K "\<lambda>k i. inner ! k ! i"] inner N by simp
    show "index_last (T2 inner) (- 1) = Inr (T1 (vec_of K (\<lambda>k. inner ! k ! (N - 3))))"
      using index_last_m1[of "N - 2" K "\<lambda>k i. inner ! k ! i"] inner N by simp
    show "index_last (T2 inner) (- 2) = Inr (T1 (vec_of K (\<lambda>k. inner ! k ! (N - 4))))"
      using index_last_m2[of "N - 2" K "\<lambda>k i. inner ! k ! i"] inner N by simp
  }
  {
    assume N: "N < 4"
    show fail: "index_last (T2 inner) 1 = Inl IndexError"
      using index_last_T2_out_of_range[of K "N - 2" 1 "\<lambda>k i. inner ! k ! i"] inner assms(2) N
      by auto
    show "\<forall>bcs t. \<exists>e. apply_boundary_conditions_after_step (T2 inner) bcs [g]
                              (grid_deltas g) t = Inl e"
      using after_step_needs_second_interior_value[OF fail] by blast
  }
  show "parabolic_equation_step 1 0 [[0, 1, 2]] (T2 [[9, 7, 9]]) (dirichlet 5, dirichlet 6)
            (Some zero_coeff_fn) None None identity_scheme = Inl IndexError"
    by (simp add: parabolic_equation_step_def identity_scheme_def dirichlet_def
          apply_boundary_conditions_after_step_def discretize_boundary_conditions_def
          tensor_defs tbin.simps concat_last.simps)
qed

theorem grid_size_precondition_witness:
  "get (grid_deltas [0, 1, 3, 4]) 1 = Inr 2
   \<and> get (grid_deltas [0, 1, 3, 4]) (- 2) = Inr 2
   \<and> index_last (T2 [[7, 8]]) 1 = Inr (T1 [8])
   \<and> index_last (T2 [[7, 8]]) (- 2) = Inr (T1 [7])
   \<and> index_last (T2 [[7]]) 1 = Inl IndexError"
  using grid_size_precondition[of 1 4 "[[7, 8]]" "[0, 1, 3, 4]"]
    grid_size_precondition[of 1 3 "[[7]]" "[0, 1, 2]"]
  by (simp add: is_matrix_def vec_of_def)

subsection \<open>The Boundary Injector and the Boundary Discretizer\<close>

text \<open>
  C3. Both edges are pure Dirichlet: \<open>beta\<close> is absent and \<open>alpha\<close> present at both
  ends. For diagonals of shape \<open>[K, n]\<close> with \<open>n > 0\<close> the Boundary Injector returns
  the triple \<open>(diagonal, upper, lower)\<close> unchanged and an inhomogeneous term whose first
  entry is \<open>lower[0] * gamma_lower / alpha_lower\<close>, whose last entry is
  \<open>upper[-1] * gamma_upper / alpha_upper\<close> and whose entries in between are zero. The
  term has \<open>max 2 n\<close> columns, that is \<open>n\<close> for the grids of at least four points.
\<close>

theorem dirichlet_fast_path:
  assumes "is_matrix K n D" and "is_matrix K n U" and "is_matrix K n L" and "0 < n"
    and "fst bcs t (CoordGrid cg) = (Some al, None, gl)" and "batch_ok K al" and "batch_ok K gl"
    and "snd bcs t (CoordGrid cg) = (Some au, None, gu)" and "batch_ok K au" and "batch_ok K gu"
  shows "\<exists>R. apply_boundary_conditions_to_discretized_equation bcs cg deltas
               (T2 D) (T2 U) (T2 L) t = Inr ((T2 D, T2 U, T2 L), T2 R)
             \<and> is_matrix K (max 2 n) R
             \<and> (\<forall>k<K. R ! k ! 0 = L ! k ! 0 * batch_at gl k / batch_at al k
                      \<and> R ! k ! (max 2 n - 1) = U ! k ! (n - 1) * batch_at gu k / batch_at au k
                      \<and> (\<forall>i. 0 < i \<and> i < max 2 n - 1 \<longrightarrow> R ! k ! i = 0))"
proof -
  have m: "mat_of K n (\<lambda>k i. D ! k ! i) = D" "mat_of K n (\<lambda>k i. U ! k ! i) = U"
    "mat_of K n (\<lambda>k i. L ! k ! i) = L"
    using assms(1-3) by (simp_all add: mat_of_nth)
  have sz: "n - 2 + 2 = max 2 n"
    using assms(4) by auto
  note cf = injector_dirichlet_closed_form[OF assms(4-10), of deltas "\<lambda>k i. D ! k ! i"
      "\<lambda>k i. U ! k ! i" "\<lambda>k i. L ! k ! i", unfolded m sz]
  show ?thesis
    unfolding cf
  proof (intro exI conjI allI impI)
    show "Inr ((T2 D, T2 U, T2 L), T2 (mat_of K (max 2 n) (\<lambda>k i.
                if i = 0 then L ! k ! 0 * batch_at gl k / batch_at al k
                else if i = Suc (n - 2) then U ! k ! (n - 1) * batch_at gu k / batch_at au k
                else 0))) =
          Inr ((T2 D, T2 U, T2 L), T2 (mat_of K (max 2 n) (\<lambda>k i.
                if i = 0 then L ! k ! 0 * batch_at gl k / batch_at al k
                else if i = Suc (n - 2) then U ! k ! (n - 1) * batch_at gu k / batch_at au k
                else 0)))"
      by (rule refl)
    show "is_matrix K (max 2 n) (mat_of K (max 2 n) (\<lambda>k i.
                if i = 0 then L ! k ! 0 * batch_at gl k / batch_at al k
                else if i = Suc (n - 2) then U ! k ! (n - 1) * batch_at gu k / batch_at au k
                else 0))"
      by simp
  next
    fix k assume k: "k < K"
    let ?R = "mat_of K (max 2 n) (\<lambda>k i.
                if i = 0 then L ! k ! 0 * batch_at gl k / batch_at al k
                else if i = Suc (n - 2) then U ! k ! (n - 1) * batch_at gu k / batch_at au k
                else 0)"
    have e: "max 2 n - 1 = Suc (n - 2)"
      using assms(4) by auto
    show "?R ! k ! 0 = L ! k ! 0 * batch_at gl k / batch_at al k"
      using k by simp
    show "?R ! k ! (max 2 n - 1) = U ! k ! (n - 1) * batch_at gu k / batch_at au k"
      using k unfolding e by simp
    fix i assume "0 < i \<and> i < max 2 n - 1"
    then have "i \<noteq> 0" "i \<noteq> Suc (n - 2)" "i < max 2 n"
      unfolding e by auto
    then show "?R ! k ! i = 0"
      using k by simp
  qed
qed

theorem dirichlet_fast_path_witness:
  "\<exists>R. apply_boundary_conditions_to_discretized_equation (dirichlet 5, dirichlet 6)
         [[0, 1, 2, 3, 4]] [1, 1, 1, 1]
         (T2 [[- 2, - 2, - 2]]) (T2 [[- 1, - 1, - 4]]) (T2 [[3, 1, 1]]) 0
       = Inr ((T2 [[- 2, - 2, - 2]], T2 [[- 1, - 1, - 4]], T2 [[3, 1, 1]]), T2 R)
     \<and> R ! 0 ! 0 = 15 \<and> R ! 0 ! 2 = - 24 \<and> R ! 0 ! 1 = 0"
proof -
  have "\<exists>R. apply_boundary_conditions_to_discretized_equation (dirichlet 5, dirichlet 6)
         [[0, 1, 2, 3, 4]] [1, 1, 1, 1]
         (T2 [[- 2, - 2, - 2]]) (T2 [[- 1, - 1, - 4]]) (T2 [[3, 1, 1]]) 0
       = Inr ((T2 [[- 2, - 2, - 2]], T2 [[- 1, - 1, - 4]], T2 [[3, 1, 1]]), T2 R)
     \<and> is_matrix 1 (max 2 3) R
     \<and> (\<forall>k<1. R ! k ! 0 = [[3, 1, 1]] ! k ! 0 * batch_at (T0 5) k / batch_at (T0 1) k
              \<and> R ! k ! (max 2 3 - 1)
                  = [[- 1, - 1, - 4]] ! k ! (3 - 1) * batch_at (T0 6) k / batch_at (T0 1) k
              \<and> (\<forall>i. 0 < i \<and> i < max 2 3 - 1 \<longrightarrow> R ! k ! i = 0))"
    by (rule dirichlet_fast_path) (simp_all add: is_matrix_def dirichlet_def)
  then obtain R where
    eq: "apply_boundary_conditions_to_discretized_equation (dirichlet 5, dirichlet 6)
         [[0, 1, 2, 3, 4]] [1, 1, 1, 1]
         (T2 [[- 2, - 2, - 2]]) (T2 [[- 1, - 1, - 4]]) (T2 [[3, 1, 1]]) 0
       = Inr ((T2 [[- 2, - 2, - 2]], T2 [[- 1, - 1, - 4]], T2 [[3, 1, 1]]), T2 R)"
    and en: "\<forall>k<1. R ! k ! 0 = [[3, 1, 1]] ! k ! 0 * batch_at (T0 5) k / batch_at (T0 1) k
              \<and> R ! k ! (max 2 3 - 1)
                  = [[- 1, - 1, - 4]] ! k ! (3 - 1) * batch_at (T0 6) k / batch_at (T0 1) k
              \<and> (\<forall>i. 0 < i \<and> i < max 2 3 - 1 \<longrightarrow> R ! k ! i = 0)"
    by blast
  from en[rule_format, of 0] have a: "R ! 0 ! 0 = 15" "R ! 0 ! 2 = - 24"
    and b: "\<And>i. 0 < i \<and> i < max 2 3 - 1 \<Longrightarrow> R ! 0 ! i = 0"
    by simp_all
  from b[of 1] have "R ! 0 ! 1 = 0"
    by simp
  with eq a show ?thesis by blast
qed

text \<open>
  C2. For a Robin condition with \<open>beta\<close> present and \<open>alpha\<close> present or absent, the
  Boundary Discretizer returns, for every entry of the batch, the rule \<open>robin_rule\<close> of
  the specification: \<open>xi1 = beta*(dx0+dx1)\<^sup>2/denom\<close>, \<open>xi2 = -beta*dx0\<^sup>2/denom\<close>,
  \<open>eta = gamma*dx0*dx1*(dx0+dx1)/denom\<close> with
  \<open>denom = beta*dx1*(2*dx0+dx1)\<close> plus \<open>alpha*dx0*dx1*(dx0+dx1)\<close> when \<open>alpha\<close> is
  present. In the Boundary Injector, on a grid \<open>g\<close> of \<open>n + 2 \<ge> 4\<close> points with valid
  conditions of which at least one has \<open>beta\<close> present, a lower edge with \<open>beta\<close>
  present corrects the first row by the rule for \<open>dx0 = g[1] - g[0]\<close>,
  \<open>dx1 = g[2] - g[1]\<close>, and an upper edge with \<open>beta\<close> present corrects the last row
  by the rule for the mirrored spacings \<open>dx0 = g[n+1] - g[n]\<close>, \<open>dx1 = g[n] - g[n-1]\<close>.
\<close>

theorem robin_boundary_discretization:
  assumes "batch_ok K beta" and "batch_ok K gamma"
    and "case alpha of None \<Rightarrow> True | Some a \<Rightarrow> batch_ok K a"
    and "is_matrix K n D" and "is_matrix K n U" and "is_matrix K n L"
    and "2 \<le> n" and "length g = n + 2"
    and "fst bcs t (CoordGrid [g]) = (al, bl, gl)" and "valid_boundary K (al, bl, gl)"
    and "snd bcs t (CoordGrid [g]) = (au, bu, gu)" and "valid_boundary K (au, bu, gu)"
    and "bl \<noteq> None \<or> bu \<noteq> None"
  shows "(\<exists>xi1 xi2 eta.
            discretize_boundary_conditions dx0 dx1 alpha (Some beta) gamma = Inr (xi1, xi2, eta)
          \<and> (\<forall>k<K. (batch_at xi1 k, batch_at xi2 k, batch_at eta k)
                = robin_rule dx0 dx1 (map_option (\<lambda>a. batch_at a k) alpha)
                    (batch_at beta k) (batch_at gamma k)))
       \<and> (\<exists>D' U' L' R.
            apply_boundary_conditions_to_discretized_equation bcs [g] (grid_deltas g)
              (T2 D) (T2 U) (T2 L) t = Inr ((T2 D', T2 U', T2 L'), T2 R)
          \<and> (\<forall>b. bl = Some b \<longrightarrow> (\<forall>k<K.
                case robin_rule (g ! 1 - g ! 0) (g ! 2 - g ! 1)
                       (map_option (\<lambda>a. batch_at a k) al) (batch_at b k) (batch_at gl k)
                of (xi1, xi2, eta) \<Rightarrow>
                     D' ! k ! 0 = D ! k ! 0 + L ! k ! 0 * xi1
                   \<and> U' ! k ! 0 = U ! k ! 0 + L ! k ! 0 * xi2
                   \<and> R ! k ! 0 = L ! k ! 0 * eta))
          \<and> (\<forall>b. bu = Some b \<longrightarrow> (\<forall>k<K.
                case robin_rule (g ! (n + 1) - g ! n) (g ! n - g ! (n - 1))
                       (map_option (\<lambda>a. batch_at a k) au) (batch_at b k) (batch_at gu k)
                of (xj1, xj2, etb) \<Rightarrow>
                     D' ! k ! (n - 1) = D ! k ! (n - 1) + U ! k ! (n - 1) * xj1
                   \<and> L' ! k ! (n - 1) = L ! k ! (n - 1) + U ! k ! (n - 1) * xj2
                   \<and> R ! k ! (n - 1) = U ! k ! (n - 1) * etb)))"
proof (rule conjI)
  show "\<exists>xi1 xi2 eta.
            discretize_boundary_conditions dx0 dx1 alpha (Some beta) gamma = Inr (xi1, xi2, eta)
          \<and> (\<forall>k<K. (batch_at xi1 k, batch_at xi2 k, batch_at eta k)
                = robin_rule dx0 dx1 (map_option (\<lambda>a. batch_at a k) alpha)
                    (batch_at beta k) (batch_at gamma k))"
    using discretize_robin_batch[OF assms(1-3), of dx0 dx1] by blast
next
  let ?d = "grid_deltas g"
  have len: "length ?d = n + 1"
    using assms(8) by simp
  have dl: "2 \<le> length ?d"
    using len assms(7) by simp
  have d0: "?d ! 0 = g ! 1 - g ! 0" and d1: "?d ! 1 = g ! 2 - g ! 1"
    and dm1: "?d ! (length ?d - 1) = g ! (n + 1) - g ! n"
    and dm2: "?d ! (length ?d - 2) = g ! n - g ! (n - 1)"
    using assms(7,8) by (simp_all add: nth_grid_deltas eval_nat_numeral Suc_diff_Suc)
  obtain xi1 xi2 eta where l:
    "discretize_boundary_conditions (?d ! 0) (?d ! 1) al bl gl = Inr (xi1, xi2, eta)"
    "batch_ok K xi1" "batch_ok K xi2" "batch_ok K eta"
    using discretize_valid_batch[OF assms(10), of "?d ! 0" "?d ! 1"] by blast
  obtain xj1 xj2 etb where u:
    "discretize_boundary_conditions (?d ! (length ?d - 1)) (?d ! (length ?d - 2)) au bu gu
       = Inr (xj1, xj2, etb)"
    "batch_ok K xj1" "batch_ok K xj2" "batch_ok K etb"
    using discretize_valid_batch[OF assms(12), of "?d ! (length ?d - 1)" "?d ! (length ?d - 2)"]
    by blast
  have m: "mat_of K n (\<lambda>k i. D ! k ! i) = D" "mat_of K n (\<lambda>k i. U ! k ! i) = U"
    "mat_of K n (\<lambda>k i. L ! k ! i) = L"
    using assms(4-6) by (simp_all add: mat_of_nth)
  note cf = injector_general_closed_form[OF assms(7) dl assms(9,11,13) l u,
      of "\<lambda>k i. D ! k ! i" "\<lambda>k i. U ! k ! i" "\<lambda>k i. L ! k ! i", unfolded m]
  have lower: "case robin_rule (g ! 1 - g ! 0) (g ! 2 - g ! 1)
                 (map_option (\<lambda>a. batch_at a k) al) (batch_at b k) (batch_at gl k)
               of (x1, x2, e) \<Rightarrow>
                 batch_at xi1 k = x1 \<and> batch_at xi2 k = x2 \<and> batch_at eta k = e"
    if "bl = Some b" "k < K" for b k
  proof -
    have ok: "batch_ok K b" "batch_ok K gl" "case al of None \<Rightarrow> True | Some a \<Rightarrow> batch_ok K a"
      using assms(10) that(1) by (auto simp: valid_boundary_def)
    obtain y1 y2 f where y:
      "discretize_boundary_conditions (?d ! 0) (?d ! 1) al (Some b) gl = Inr (y1, y2, f)"
      "\<forall>k<K. (batch_at y1 k, batch_at y2 k, batch_at f k)
          = robin_rule (?d ! 0) (?d ! 1) (map_option (\<lambda>a. batch_at a k) al)
              (batch_at b k) (batch_at gl k)"
      using discretize_robin_batch[OF ok, of "?d ! 0" "?d ! 1"] by blast
    have "y1 = xi1" "y2 = xi2" "f = eta"
      using y(1) l(1) that(1) by simp_all
    then show ?thesis
      using y(2)[unfolded d0 d1, rule_format, OF that(2)] by (auto split: prod.splits)
  qed
  have upper: "case robin_rule (g ! (n + 1) - g ! n) (g ! n - g ! (n - 1))
                 (map_option (\<lambda>a. batch_at a k) au) (batch_at b k) (batch_at gu k)
               of (x1, x2, e) \<Rightarrow>
                 batch_at xj1 k = x1 \<and> batch_at xj2 k = x2 \<and> batch_at etb k = e"
    if "bu = Some b" "k < K" for b k
  proof -
    have ok: "batch_ok K b" "batch_ok K gu" "case au of None \<Rightarrow> True | Some a \<Rightarrow> batch_ok K a"
      using assms(12) that(1) by (auto simp: valid_boundary_def)
    obtain y1 y2 f where y:
      "discretize_boundary_conditions (?d ! (length ?d - 1)) (?d ! (length ?d - 2))
         au (Some b) gu = Inr (y1, y2, f)"
      "\<forall>k<K. (batch_at y1 k, batch_at y2 k, batch_at f k)
          = robin_rule (?d ! (length ?d - 1)) (?d ! (length ?d - 2))
              (map_option (\<lambda>a. batch_at a k) au) (batch_at b k) (batch_at gu k)"
      using discretize_robin_batch[OF ok, of "?d ! (length ?d - 1)" "?d ! (length ?d - 2)"]
      by blast
    have "y1 = xj1" "y2 = xj2" "f = etb"
      using y(1) u(1) that(1) by simp_all
    then show ?thesis
      using y(2)[unfolded dm1 dm2, rule_format, OF that(2)] by (auto split: prod.splits)
  qed
  have n0: "0 < n" "n - 1 < n" "n - 1 \<noteq> 0"
    using assms(7) by simp_all
  show "\<exists>D' U' L' R.
            apply_boundary_conditions_to_discretized_equation bcs [g] (grid_deltas g)
              (T2 D) (T2 U) (T2 L) t = Inr ((T2 D', T2 U', T2 L'), T2 R)
          \<and> (\<forall>b. bl = Some b \<longrightarrow> (\<forall>k<K.
                case robin_rule (g ! 1 - g ! 0) (g ! 2 - g ! 1)
                       (map_option (\<lambda>a. batch_at a k) al) (batch_at b k) (batch_at gl k)
                of (xi1, xi2, eta) \<Rightarrow>
                     D' ! k ! 0 = D ! k ! 0 + L ! k ! 0 * xi1
                   \<and> U' ! k ! 0 = U ! k ! 0 + L ! k ! 0 * xi2
                   \<and> R ! k ! 0 = L ! k ! 0 * eta))
          \<and> (\<forall>b. bu = Some b \<longrightarrow> (\<forall>k<K.
                case robin_rule (g ! (n + 1) - g ! n) (g ! n - g ! (n - 1))
                       (map_option (\<lambda>a. batch_at a k) au) (batch_at b k) (batch_at gu k)
                of (xj1, xj2, etb) \<Rightarrow>
                     D' ! k ! (n - 1) = D ! k ! (n - 1) + U ! k ! (n - 1) * xj1
                   \<and> L' ! k ! (n - 1) = L ! k ! (n - 1) + U ! k ! (n - 1) * xj2
                   \<and> R ! k ! (n - 1) = U ! k ! (n - 1) * etb))"
    unfolding cf
    apply (intro exI conjI allI impI)
      apply (rule refl)
    subgoal for b k
      using lower[of b k] n0 by (auto split: prod.splits)
    subgoal for b k
      using upper[of b k] n0 by (auto split: prod.splits)
    done
qed

theorem robin_boundary_discretization_witness:
  "(\<exists>xi1 xi2 eta.
      discretize_boundary_conditions 1 2 (Some (T0 1)) (Some (T0 1)) (T0 2)
        = Inr (xi1, xi2, eta)
    \<and> batch_at xi1 0 = 9 / 14 \<and> batch_at xi2 0 = - (1 / 14) \<and> batch_at eta 0 = 6 / 7)
   \<and> (\<exists>D' U' L' R.
      apply_boundary_conditions_to_discretized_equation
        (\<lambda>t x. (Some (T0 1), Some (T0 1), T0 2), \<lambda>t x. (None, Some (T0 1), T0 3))
        [[0, 1, 3, 4]] (grid_deltas [0, 1, 3, 4])
        (T2 [[- 2, - 2]]) (T2 [[- 1, - (4 / 3)]]) (T2 [[1, 1 / 3]]) 0
        = Inr ((T2 D', T2 U', T2 L'), T2 R)
    \<and> D' ! 0 ! 0 = - 2 + 9 / 14 \<and> U' ! 0 ! 0 = - 1 - 1 / 14 \<and> R ! 0 ! 0 = 6 / 7
    \<and> D' ! 0 ! 1 = - (7 / 2) \<and> L' ! 0 ! 1 = 1 / 2 \<and> R ! 0 ! 1 = - 3)"
proof -
  let ?bcs = "(\<lambda>t x. (Some (T0 1), Some (T0 1), T0 2), \<lambda>t x. (None, Some (T0 1), T0 3))
                :: boundary_fn \<times> boundary_fn"
  have h: "batch_ok 1 (T0 1)" "batch_ok 1 (T0 2)"
    "case Some (T0 1) of None \<Rightarrow> True | Some a \<Rightarrow> batch_ok 1 a"
    "is_matrix 1 2 [[- 2, - 2]]" "is_matrix 1 2 [[- 1, - (4 / 3)]]" "is_matrix 1 2 [[1, 1 / 3]]"
    "(2::nat) \<le> 2" "length [0, 1, 3, 4::real] = 2 + 2"
    "fst ?bcs 0 (CoordGrid [[0, 1, 3, 4]]) = (Some (T0 1), Some (T0 1), T0 2)"
    "valid_boundary 1 (Some (T0 1), Some (T0 1), T0 2)"
    "snd ?bcs 0 (CoordGrid [[0, 1, 3, 4]]) = (None, Some (T0 1), T0 3)"
    "valid_boundary 1 (None, Some (T0 1), T0 3)"
    "Some (T0 1) \<noteq> None \<or> Some (T0 1) \<noteq> None"
    by (simp_all add: is_matrix_def valid_boundary_def)
  note r = robin_boundary_discretization[where ?dx0.0 = 1 and ?dx1.0 = 2 and bcs = ?bcs
      and t = 0, OF h]
  note r1 = r[THEN conjunct1] and r2 = r[THEN conjunct2]
  show ?thesis
  proof (rule conjI)
    from r1 show "\<exists>xi1 xi2 eta.
      discretize_boundary_conditions 1 2 (Some (T0 1)) (Some (T0 1)) (T0 2)
        = Inr (xi1, xi2, eta)
      \<and> batch_at xi1 0 = 9 / 14 \<and> batch_at xi2 0 = - (1 / 14) \<and> batch_at eta 0 = 6 / 7"
    proof (elim exE conjE)
      fix xi1 xi2 eta
      assume a: "discretize_boundary_conditions 1 2 (Some (T0 1)) (Some (T0 1)) (T0 2)
          = Inr (xi1, xi2, eta)"
        and av: "\<forall>k<1. (batch_at xi1 k, batch_at xi2 k, batch_at eta k)
          = robin_rule 1 2 (map_option (\<lambda>a. batch_at a k) (Some (T0 1)))
              (batch_at (T0 1) k) (batch_at (T0 2) k)"
      from av[rule_format, of 0] have
        v: "batch_at xi1 0 = 9 / 14" "batch_at xi2 0 = - (1 / 14)" "batch_at eta 0 = 6 / 7"
        by (simp_all add: robin_rule_def Let_def)
      show ?thesis
        by (rule exI[of _ xi1], rule exI[of _ xi2], rule exI[of _ eta])
           (intro conjI, rule a, (rule v)+)
    qed
    from r2 show "\<exists>D' U' L' R.
      apply_boundary_conditions_to_discretized_equation ?bcs
        [[0, 1, 3, 4]] (grid_deltas [0, 1, 3, 4])
        (T2 [[- 2, - 2]]) (T2 [[- 1, - (4 / 3)]]) (T2 [[1, 1 / 3]]) 0
        = Inr ((T2 D', T2 U', T2 L'), T2 R)
      \<and> D' ! 0 ! 0 = - 2 + 9 / 14 \<and> U' ! 0 ! 0 = - 1 - 1 / 14 \<and> R ! 0 ! 0 = 6 / 7
      \<and> D' ! 0 ! 1 = - (7 / 2) \<and> L' ! 0 ! 1 = 1 / 2 \<and> R ! 0 ! 1 = - 3"
    proof (elim exE conjE)
      fix D' U' L' R
      assume b: "apply_boundary_conditions_to_discretized_equation ?bcs
          [[0, 1, 3, 4]] (grid_deltas [0, 1, 3, 4])
          (T2 [[- 2, - 2]]) (T2 [[- 1, - (4 / 3)]]) (T2 [[1, 1 / 3]]) 0
          = Inr ((T2 D', T2 U', T2 L'), T2 R)"
        and lo: "\<forall>b. Some (T0 1) = Some b \<longrightarrow> (\<forall>k<1.
                case robin_rule ([0, 1, 3, 4] ! 1 - [0, 1, 3, 4] ! 0)
                       ([0, 1, 3, 4] ! 2 - [0, 1, 3, 4] ! 1)
                       (map_option (\<lambda>a. batch_at a k) (Some (T0 1))) (batch_at b k)
                       (batch_at (T0 2) k)
                of (xi1, xi2, eta) \<Rightarrow>
                     D' ! k ! 0 = [[- 2, - 2]] ! k ! 0 + [[1, 1 / 3]] ! k ! 0 * xi1
                   \<and> U' ! k ! 0 = [[- 1, - (4 / 3)]] ! k ! 0 + [[1, 1 / 3]] ! k ! 0 * xi2
                   \<and> R ! k ! 0 = [[1, 1 / 3]] ! k ! 0 * eta)"
        and up: "\<forall>b. Some (T0 1) = Some b \<longrightarrow> (\<forall>k<1.
                case robin_rule ([0, 1, 3, 4] ! (2 + 1) - [0, 1, 3, 4] ! 2)
                       ([0, 1, 3, 4] ! 2 - [0, 1, 3, 4] ! (2 - 1))
                       (map_option (\<lambda>a. batch_at a k) None) (batch_at b k)
                       (batch_at (T0 3) k)
                of (xj1, xj2, etb) \<Rightarrow>
                     D' ! k ! (2 - 1) = [[- 2, - 2]] ! k ! (2 - 1)
                                        + [[- 1, - (4 / 3)]] ! k ! (2 - 1) * xj1
                   \<and> L' ! k ! (2 - 1) = [[1, 1 / 3]] ! k ! (2 - 1)
                                          + [[- 1, - (4 / 3)]] ! k ! (2 - 1) * xj2
                   \<and> R ! k ! (2 - 1) = [[- 1, - (4 / 3)]] ! k ! (2 - 1) * etb)"
      from lo[rule_format, of "T0 1" 0] have
        l: "D' ! 0 ! 0 = - 2 + 9 / 14" "U' ! 0 ! 0 = - 1 - 1 / 14" "R ! 0 ! 0 = 6 / 7"
        by (simp_all add: robin_rule_def Let_def eval_nat_numeral)
      from up[rule_format, of "T0 1" 0] have
        u: "D' ! 0 ! 1 = - (7 / 2)" "L' ! 0 ! 1 = 1 / 2" "R ! 0 ! 1 = - 3"
        by (simp_all add: robin_rule_def Let_def eval_nat_numeral)
      show ?thesis
        by (rule exI[of _ D'], rule exI[of _ U'], rule exI[of _ L'], rule exI[of _ R])
           (intro conjI, rule b, (rule l u)+)
    qed
  qed
qed

end
